theory Spec2Isabelle
  imports Complex_Main "HOL-Library.AList"
begin

section \<open>Data model (exchange/models.py)\<close>

text \<open>
  Prices, quantities and balances are Python \<open>Decimal\<close> values. They are modelled as
  rationals: comparison, addition, subtraction and the divisions by 2 and 4 that the
  engine performs are exact on decimals as long as the 28-digit context precision is not
  exceeded, which is the reading of the specification (exact decimal arithmetic).
  Wall-clock fields (\<open>datetime.utcnow()\<close>) are left out of the records.
  Record fields carry a short prefix, since two records cannot share a field name.
\<close>

type_synonym decimal = rat

datatype Side = LONG | SHORT

datatype SlotState = AVAILABLE | ASSIGNED | IN_TRADE | COOLDOWN | FROZEN

datatype TradeStatus = PENDING | FILLING | OPEN | CLOSING | CLOSED | CANCELLED

datatype ExitReason = SL_HIT | TRAILING_SL | KILL_SWITCH | MANUAL | FILL_FAILED

record Candle =
  c_timestamp :: int
  c_open :: decimal
  c_high :: decimal
  c_low :: decimal
  c_close :: decimal
  c_volume :: decimal
  c_confirmed :: bool

record HACandle =
  ha_timestamp :: int
  ha_open :: decimal
  ha_close :: decimal
  ha_high :: decimal
  ha_low :: decimal

definition is_bullish :: "HACandle \<Rightarrow> bool" where
  "is_bullish h = (ha_close h > ha_open h)"

definition is_bearish :: "HACandle \<Rightarrow> bool" where
  "is_bearish h = (ha_close h < ha_open h)"

record Signal =
  sig_symbol :: string
  sig_side :: Side
  sig_ha_candle :: HACandle

section \<open>Heiken Ashi engine (core/heiken_ashi.py)\<close>

text \<open>
  The engine keeps two dictionaries: \<open>_ha_series\<close> (symbol to the list of HA candles,
  most recent last) and \<open>_prev_ha\<close> (symbol to the previous HA candle).
\<close>

record HeikenAshiEngine =
  ha_series :: "string \<rightharpoonup> HACandle list"
  prev_ha :: "string \<rightharpoonup> HACandle"

text \<open>\<open>_calc_single(candle, prev_ha)\<close>.\<close>

definition calc_single :: "Candle \<Rightarrow> HACandle option \<Rightarrow> HACandle" where
  "calc_single candle prev =
     (let hc = (c_open candle + c_high candle + c_low candle + c_close candle) / 4;
          ho = (case prev of
                  None \<Rightarrow> (c_open candle + c_close candle) / 2
                | Some p \<Rightarrow> (ha_open p + ha_close p) / 2);
          hh = max (c_high candle) (max ho hc);
          hl = min (c_low candle) (min ho hc)
      in \<lparr>ha_timestamp = c_timestamp candle, ha_open = ho, ha_close = hc,
          ha_high = hh, ha_low = hl\<rparr>)"

text \<open>\<open>_detect_flip(symbol, prev_ha, curr_ha)\<close>.\<close>

definition detect_flip :: "string \<Rightarrow> HACandle \<Rightarrow> HACandle \<Rightarrow> Signal option" where
  "detect_flip symbol prev_h curr_h =
     (if is_bearish prev_h \<and> is_bullish curr_h then
        Some \<lparr>sig_symbol = symbol, sig_side = LONG, sig_ha_candle = curr_h\<rparr>
      else if is_bullish prev_h \<and> is_bearish curr_h then
        Some \<lparr>sig_symbol = symbol, sig_side = SHORT, sig_ha_candle = curr_h\<rparr>
      else None)"

text \<open>
  The loop of \<open>build_from_history\<close>: \<open>prev_ha\<close> starts as \<open>None\<close>, every candle is
  converted with the previous HA candle and appended to \<open>ha_series\<close>.
\<close>

fun ha_loop :: "Candle list \<Rightarrow> HACandle option \<Rightarrow> HACandle list \<Rightarrow> HACandle list" where
  "ha_loop [] prev acc = acc"
| "ha_loop (candle # rest) prev acc =
     (let ha = calc_single candle prev in ha_loop rest (Some ha) (acc @ [ha]))"

text \<open>
  \<open>build_from_history(symbol, candles)\<close> returns the series; an empty history returns
  \<open>[]\<close> and stores nothing.
\<close>

definition build_from_history ::
  "HeikenAshiEngine \<Rightarrow> string \<Rightarrow> Candle list \<Rightarrow> HeikenAshiEngine \<times> HACandle list" where
  "build_from_history eng symbol candles =
     (if candles = [] then (eng, [])
      else
        (let series = ha_loop candles None []
         in (eng\<lparr>ha_series := (ha_series eng)(symbol \<mapsto> series),
                 prev_ha := (prev_ha eng)(symbol \<mapsto> last series)\<rparr>, series)))"

text \<open>
  \<open>update(symbol, candle)\<close>: the new HA candle is chained on the stored previous one,
  appended to the stored series, the series is cut to its last 50 entries
  (\<open>series[-50:]\<close> when longer than 50), and a flip is looked for when a previous HA
  candle existed.
\<close>

definition keep_last :: "nat \<Rightarrow> 'a list \<Rightarrow> 'a list" where
  "keep_last n xs = (if length xs > n then drop (length xs - n) xs else xs)"

definition update ::
  "HeikenAshiEngine \<Rightarrow> string \<Rightarrow> Candle \<Rightarrow> HeikenAshiEngine \<times> HACandle \<times> Signal option" where
  "update eng symbol candle =
     (let prev = prev_ha eng symbol;
          new_ha = calc_single candle prev;
          series = (case ha_series eng symbol of None \<Rightarrow> [] | Some s \<Rightarrow> s) @ [new_ha];
          series' = keep_last 50 series;
          signal = (case prev of None \<Rightarrow> None | Some p \<Rightarrow> detect_flip symbol p new_ha)
      in (eng\<lparr>ha_series := (ha_series eng)(symbol \<mapsto> series'),
              prev_ha := (prev_ha eng)(symbol \<mapsto> new_ha)\<rparr>, new_ha, signal))"

text \<open>\<open>remove_symbol(symbol)\<close>.\<close>

definition remove_symbol :: "HeikenAshiEngine \<Rightarrow> string \<Rightarrow> HeikenAshiEngine" where
  "remove_symbol eng symbol =
     eng\<lparr>ha_series := (ha_series eng)(symbol := None),
         prev_ha := (prev_ha eng)(symbol := None)\<rparr>"

text \<open>
  Modelled from the spec: \<open>calc_live\<close> is called by \<open>SignalEngine.on_kline_5\<close> but the
  class \<open>HeikenAshiEngine\<close> of core/heiken_ashi.py defines no such method. The
  specification (section 4.1) gives it as
  \<open>calc_live(symbol, live_4h_candle) \<rightarrow> (HACandle, Option<Signal>)\<close>: it computes an HA
  candle read-only, using the stored previous-confirmed HA as the chain root, does not
  mutate state, and is used to evaluate flips; a flip between \<open>prev\<close> and \<open>curr\<close> is
  bearish to bullish (LONG) or bullish to bearish (SHORT). The engine is returned next
  to the result so that "does not mutate" is a statement about the returned engine.
  Without a stored previous HA candle the candle is seeded like a first candle and no
  flip is reported, as \<open>update\<close> does.
\<close>

definition calc_live ::
  "HeikenAshiEngine \<Rightarrow> string \<Rightarrow> Candle \<Rightarrow> HeikenAshiEngine \<times> HACandle \<times> Signal option" where
  "calc_live eng symbol candle =
     (let prev = prev_ha eng symbol;
          live_ha = calc_single candle prev;
          signal = (case prev of None \<Rightarrow> None | Some p \<Rightarrow> detect_flip symbol p live_ha)
      in (eng, live_ha, signal))"

section \<open>Signal engine: the kline handlers (core/signal_engine.py)\<close>

text \<open>
  One element of the \<open>data\<close> array of a kline message, with the fields the handlers
  read: \<open>symbol\<close> (empty when absent), \<open>confirm\<close>, \<open>start\<close> and the prices, already
  converted (a payload that \<open>int\<close> or \<open>Decimal\<close> rejects is outside the model).
\<close>

record Kline =
  k_symbol :: string
  k_confirm :: bool
  k_start :: int
  k_open :: decimal
  k_high :: decimal
  k_low :: decimal
  k_close :: decimal
  k_volume :: decimal

text \<open>Python's \<open>topic.split(".")\<close>.\<close>

fun split_on :: "char \<Rightarrow> string \<Rightarrow> string list" where
  "split_on d [] = [[]]"
| "split_on d (ch # rest) =
     (if ch = d then [] # split_on d rest
      else (case split_on d rest of
              [] \<Rightarrow> [[ch]]
            | w # ws \<Rightarrow> (ch # w) # ws))"

text \<open>
  The symbol a handler works on: the kline's own, or the third component of the topic
  when the kline names none and the topic has at least three components.
\<close>

definition kline_symbol :: "string \<Rightarrow> Kline \<Rightarrow> string" where
  "kline_symbol topic kline =
     (if k_symbol kline \<noteq> [] then k_symbol kline
      else (let parts = split_on CHR ''.'' topic
            in if length parts \<ge> 3 then parts ! 2 else []))"

definition kline_candle :: "Kline \<Rightarrow> Candle" where
  "kline_candle kline =
     \<lparr>c_timestamp = k_start kline, c_open = k_open kline, c_high = k_high kline,
      c_low = k_low kline, c_close = k_close kline, c_volume = k_volume kline,
      c_confirmed = k_confirm kline\<rparr>"

text \<open>
  The part of the signal engine the kline handlers touch: the HA engine, the marker
  \<open>_flip_acted_this_window\<close> (symbol to candle start) and the cache \<open>_live_4h_candle\<close>.
  \<open>_process_signal(signal)\<close> works on slots, trades and the exchange and on none of
  these three; its calls are recorded in \<open>processed_signals\<close>, each with the symbol and
  the candle start it was raised for.
\<close>

record SignalEngine =
  ha_engine :: HeikenAshiEngine
  flip_acted_this_window :: "string \<rightharpoonup> int"
  live_4h_candle :: "string \<rightharpoonup> Candle"
  processed_signals :: "(string \<times> int \<times> Signal) list"

definition signal_engine_init :: "HeikenAshiEngine \<Rightarrow> SignalEngine" where
  "signal_engine_init eng =
     \<lparr>ha_engine = eng, flip_acted_this_window = Map.empty, live_4h_candle = Map.empty,
      processed_signals = []\<rparr>"

text \<open>The body of the loop of \<open>on_kline_240\<close>, for one kline of the message.\<close>

definition kline_240_step :: "string \<Rightarrow> SignalEngine \<Rightarrow> Kline \<Rightarrow> SignalEngine" where
  "kline_240_step topic se kline =
     (let symbol = kline_symbol topic kline;
          candle = kline_candle kline
      in if k_confirm kline then
           se\<lparr>ha_engine := fst (update (ha_engine se) symbol candle),
              flip_acted_this_window := (flip_acted_this_window se)(symbol := None),
              live_4h_candle := (live_4h_candle se)(symbol := None)\<rparr>
         else
           se\<lparr>live_4h_candle := (live_4h_candle se)(symbol \<mapsto> candle)\<rparr>)"

definition on_kline_240 :: "string \<Rightarrow> Kline list \<Rightarrow> SignalEngine \<Rightarrow> SignalEngine" where
  "on_kline_240 topic kline_data se = foldl (kline_240_step topic) se kline_data"

text \<open>
  The body of the loop of \<open>on_kline_5\<close>: unconfirmed klines and symbols without a cached
  live 4h candle are skipped; otherwise \<open>calc_live\<close> is called, and a signal is passed on
  unless the marker of the symbol equals the start of the cached candle.
\<close>

definition kline_5_step :: "string \<Rightarrow> SignalEngine \<Rightarrow> Kline \<Rightarrow> SignalEngine" where
  "kline_5_step topic se kline =
     (if \<not> k_confirm kline then se
      else
        (let symbol = kline_symbol topic kline
         in case live_4h_candle se symbol of
              None \<Rightarrow> se
            | Some live_4h \<Rightarrow>
                (case calc_live (ha_engine se) symbol live_4h of
                   (eng, live_ha, signal) \<Rightarrow>
                     (let se1 = se\<lparr>ha_engine := eng\<rparr>
                      in case signal of
                           None \<Rightarrow> se1
                         | Some sg \<Rightarrow>
                             (let candle_start = c_timestamp live_4h
                              in if flip_acted_this_window se1 symbol = Some candle_start
                                 then se1
                                 else se1\<lparr>flip_acted_this_window :=
                                            (flip_acted_this_window se1)(symbol \<mapsto> candle_start),
                                          processed_signals :=
                                            processed_signals se1 @ [(symbol, candle_start, sg)]\<rparr>)))))"

definition on_kline_5 :: "string \<Rightarrow> Kline list \<Rightarrow> SignalEngine \<Rightarrow> SignalEngine" where
  "on_kline_5 topic kline_data se = foldl (kline_5_step topic) se kline_data"




section \<open>Trades and the risk manager (trading/risk_manager.py)\<close>

record TPLevel =
  level :: int
  price :: decimal
  hit :: bool

record Trade =
  trade_id :: "int option"
  slot_id :: int
  trade_symbol :: string
  trade_side :: Side
  entry_price :: "decimal option"
  qty :: "decimal option"
  order_id :: "string option"
  current_sl_price :: "decimal option"
  initial_sl_price :: "decimal option"
  tp_levels :: "TPLevel list"
  highest_tp_reached :: int
  atr_value :: "decimal option"
  trade_status :: TradeStatus
  pnl :: "decimal option"
  fees :: decimal
  exit_reason :: "ExitReason option"
  fill_attempts :: int

text \<open>
  The trades table (storage/database.py). \<open>update_trade\<close> is an SQL \<open>UPDATE ... WHERE id = ?\<close>:
  it rewrites the row of \<open>trade.id\<close> when there is one and does nothing otherwise. An
  optional decimal is written as \<open>str(x) if x else None\<close>, so a zero is stored as NULL.
\<close>

definition decimal_column :: "decimal option \<Rightarrow> decimal option" where
  "decimal_column v = (case v of None \<Rightarrow> None | Some x \<Rightarrow> if x = 0 then None else Some x)"

definition db_row :: "Trade \<Rightarrow> Trade" where
  "db_row t =
     t\<lparr>entry_price := decimal_column (entry_price t),
       qty := decimal_column (qty t),
       current_sl_price := decimal_column (current_sl_price t),
       initial_sl_price := decimal_column (initial_sl_price t),
       atr_value := decimal_column (atr_value t),
       pnl := decimal_column (pnl t)\<rparr>"

definition update_trade :: "(int \<rightharpoonup> Trade) \<Rightarrow> Trade \<Rightarrow> (int \<rightharpoonup> Trade)" where
  "update_trade db t =
     (case trade_id t of
        None \<Rightarrow> db
      | Some i \<Rightarrow> (case db i of None \<Rightarrow> db | Some old \<Rightarrow> db(i \<mapsto> db_row t)))"

text \<open>
  What the risk manager works on besides the trade object: the trades table, and the
  exchange. \<open>sl_calls\<close> lists the set-trading-stop requests sent so far (symbol and
  stop-loss). The exchange's answer is not under the program's control: it is a
  parameter, a function from the requests sent before and the present request to the
  \<open>retCode\<close> of the answer (\<open>None\<close> when the answer has none).
\<close>

record RiskWorld =
  db_trades :: "int \<rightharpoonup> Trade"
  sl_calls :: "(string \<times> decimal) list"

type_synonym exchange = "(string \<times> decimal) list \<Rightarrow> string \<Rightarrow> decimal \<Rightarrow> int option"

text \<open>
  \<open>_update_sl(trade, new_sl_price)\<close>. The safety check returns before anything is sent
  when the new value is not strictly better than the current one.
\<close>

definition sl_regression :: "Trade \<Rightarrow> decimal \<Rightarrow> bool" where
  "sl_regression trade new_sl_price =
     (case current_sl_price trade of
        None \<Rightarrow> False
      | Some current_sl \<Rightarrow>
          if trade_side trade = LONG \<and> new_sl_price \<le> current_sl then True
          else if trade_side trade = SHORT \<and> new_sl_price \<ge> current_sl then True
          else False)"

definition update_sl :: "exchange \<Rightarrow> RiskWorld \<Rightarrow> Trade \<Rightarrow> decimal \<Rightarrow> RiskWorld \<times> Trade" where
  "update_sl ex w trade new_sl_price =
     (if sl_regression trade new_sl_price then (w, trade)
      else
        (let ret_code = ex (sl_calls w) (trade_symbol trade) new_sl_price;
             w1 = w\<lparr>sl_calls := sl_calls w @ [(trade_symbol trade, new_sl_price)]\<rparr>
         in if ret_code = Some 0 then
              (let trade' = trade\<lparr>current_sl_price := Some new_sl_price\<rparr>
               in (w1\<lparr>db_trades := update_trade (db_trades w1) trade'\<rparr>, trade'))
            else (w1, trade)))"

text \<open>\<open>_get_tp_price(trade, level)\<close>: the price of the first TP level with that number.\<close>

fun get_tp_price :: "TPLevel list \<Rightarrow> int \<Rightarrow> decimal option" where
  "get_tp_price [] lvl = None"
| "get_tp_price (tp # rest) lvl = (if level tp = lvl then Some (price tp) else get_tp_price rest lvl)"

text \<open>
  The loop of \<open>_check_tp_levels\<close> over \<open>trade.tp_levels\<close>: a level that is not hit yet is
  marked when the price has reached it, and \<open>new_highest\<close> follows the marked levels.
\<close>

fun tp_loop :: "Side \<Rightarrow> decimal \<Rightarrow> TPLevel list \<Rightarrow> int \<Rightarrow> TPLevel list \<times> int" where
  "tp_loop side mark [] new_highest = ([], new_highest)"
| "tp_loop side mark (tp # rest) new_highest =
     (if hit tp then
        (case tp_loop side mark rest new_highest of (rest', h) \<Rightarrow> (tp # rest', h))
      else if (side = LONG \<and> mark \<ge> price tp) \<or> (side = SHORT \<and> mark \<le> price tp) then
        (case tp_loop side mark rest (max new_highest (level tp)) of
           (rest', h) \<Rightarrow> (tp\<lparr>hit := True\<rparr> # rest', h))
      else
        (case tp_loop side mark rest new_highest of (rest', h) \<Rightarrow> (tp # rest', h)))"

text \<open>\<open>_check_tp_levels(trade, price)\<close>.\<close>

definition check_tp_levels :: "exchange \<Rightarrow> RiskWorld \<Rightarrow> Trade \<Rightarrow> decimal \<Rightarrow> RiskWorld \<times> Trade" where
  "check_tp_levels ex w trade mark =
     (case tp_loop (trade_side trade) mark (tp_levels trade) (highest_tp_reached trade) of
        (tps, new_highest) \<Rightarrow>
          (let trade1 = trade\<lparr>tp_levels := tps\<rparr>
           in if new_highest > highest_tp_reached trade then
                (let trade2 = trade1\<lparr>highest_tp_reached := new_highest\<rparr>;
                     (w3, trade3) =
                       (if new_highest \<ge> 2 then
                          (case get_tp_price (tp_levels trade2) (new_highest - 1) of
                             None \<Rightarrow> (w, trade2)
                           | Some new_sl \<Rightarrow> update_sl ex w trade2 new_sl)
                        else (w, trade2))
                 in (w3\<lparr>db_trades := update_trade (db_trades w3) trade3\<rparr>, trade3))
              else (w, trade1)))"

text \<open>
  The body of the loop of \<open>check_price(symbol, mark_price)\<close> for one active trade: trades
  of other symbols, trades that are not OPEN and trades without TP levels are skipped.
\<close>

definition check_price_trade ::
  "exchange \<Rightarrow> RiskWorld \<Rightarrow> string \<Rightarrow> decimal \<Rightarrow> Trade \<Rightarrow> RiskWorld \<times> Trade" where
  "check_price_trade ex w symbol mark trade =
     (if trade_symbol trade \<noteq> symbol then (w, trade)
      else if trade_status trade \<noteq> OPEN then (w, trade)
      else if tp_levels trade = [] then (w, trade)
      else check_tp_levels ex w trade mark)"

text \<open>Successive mark-price ticks of the trade's symbol, for one trade.\<close>

fun run_ticks :: "exchange \<Rightarrow> RiskWorld \<Rightarrow> Trade \<Rightarrow> decimal list \<Rightarrow> RiskWorld \<times> Trade" where
  "run_ticks ex w trade [] = (w, trade)"
| "run_ticks ex w trade (mark # marks) =
     (case check_price_trade ex w (trade_symbol trade) mark trade of
        (w', trade') \<Rightarrow> run_ticks ex w' trade' marks)"

section \<open>Slot manager (trading/slot_manager.py)\<close>

record Slot =
  s_id :: int
  balance :: decimal
  state :: SlotState
  current_symbol :: "string option"
  current_trade_id :: "int option"
  total_trades :: int
  total_pnl :: decimal

record SlotConfig =
  num_slots :: int
  initial_balance :: decimal
  min_balance :: decimal
  leverage :: int

text \<open>
  The manager holds its configuration, the dictionary \<open>_slots\<close> (slot id to slot, in
  insertion order) and the slots table of the database. Every operation mutates the slot
  it is given, writes it to the table (\<open>update_slot\<close>, an SQL \<open>UPDATE ... WHERE id = ?\<close>)
  and stores it under \<open>slot.id\<close>; the model returns the new manager and the mutated slot.
\<close>

record SlotManager =
  config :: SlotConfig
  slots :: "(int \<times> Slot) list"
  db_slots :: "int \<rightharpoonup> Slot"

definition update_slot :: "(int \<rightharpoonup> Slot) \<Rightarrow> Slot \<Rightarrow> (int \<rightharpoonup> Slot)" where
  "update_slot db slot = (case db (s_id slot) of None \<Rightarrow> db | Some old \<Rightarrow> db(s_id slot \<mapsto> slot))"

definition store_slot :: "SlotManager \<Rightarrow> Slot \<Rightarrow> SlotManager" where
  "store_slot sm slot =
     sm\<lparr>db_slots := update_slot (db_slots sm) slot,
        slots := AList.update (s_id slot) slot (slots sm)\<rparr>"

definition get_slot :: "SlotManager \<Rightarrow> int \<Rightarrow> Slot option" where
  "get_slot sm i = map_of (slots sm) i"







definition calculate_position_size :: "SlotManager \<Rightarrow> Slot \<Rightarrow> decimal" where
  "calculate_position_size sm slot = balance slot * of_int (leverage (config sm))"

subsection \<open>How the signal engine drives the slots (core/signal_engine.py)\<close>







section \<open>Order executor (trading/order_executor.py)\<close>

record CoinInfo =
  coin_symbol :: string
  base_coin :: string
  volume_24h :: decimal
  min_qty :: decimal
  qty_step :: decimal
  tick_size :: decimal
  last_ha :: "HACandle option"
  coin_prev_ha :: "HACandle option"
  cooldown_until :: "int option"
  in_active_trade :: bool

record ExecutionConfig =
  fill_timeout_sec :: int
  max_fill_retries :: int
  cooldown_minutes :: int
  post_only_retries :: int
  dry_run :: bool

text \<open>
  \<open>Decimal.to_integral_value\<close> with \<open>ROUND_DOWN\<close> rounds towards zero and with
  \<open>ROUND_UP\<close> away from zero.
\<close>

definition round_down :: "decimal \<Rightarrow> decimal" where
  "round_down x = (if x \<ge> 0 then of_int \<lfloor>x\<rfloor> else of_int \<lceil>x\<rceil>)"

definition round_up :: "decimal \<Rightarrow> decimal" where
  "round_up x = (if x \<ge> 0 then of_int \<lceil>x\<rceil> else of_int \<lfloor>x\<rfloor>)"

text \<open>\<open>_calculate_qty(position_size_usdt, price, coin)\<close>.\<close>

definition calculate_qty :: "decimal \<Rightarrow> decimal \<Rightarrow> CoinInfo \<Rightarrow> decimal option" where
  "calculate_qty position_size_usdt entry coin =
     (if entry \<le> 0 then None
      else
        (let raw_qty = position_size_usdt / entry;
             q = (if qty_step coin > 0 then round_down (raw_qty / qty_step coin) * qty_step coin
                  else raw_qty)
         in if q < min_qty coin then None else Some q))"

text \<open>\<open>_round_price(price, tick_size, side)\<close>; the side "Buy" is LONG.\<close>

definition round_price :: "decimal \<Rightarrow> decimal \<Rightarrow> Side \<Rightarrow> decimal" where
  "round_price p tick side =
     (if tick \<le> 0 then p
      else if side = LONG then round_down (p / tick) * tick
      else round_up (p / tick) * tick)"

text \<open>
  The answers of the exchange during one entry. Every pass of the loop of
  \<open>execute_entry\<close> asks for the order book once and places at most one order, which it
  then waits for at most once, so the answers are indexed by the attempt number: the
  prices of the bids and of the asks of the order book, the \<open>retCode\<close> (-1 when absent)
  and the \<open>orderId\<close> of the answer to \<open>place_order\<close>, and the result of \<open>_wait_for_fill\<close>
  (a polling loop against a deadline, taken as a whole).
\<close>

record OrderBook =
  bids :: "decimal list"
  asks :: "decimal list"

record PlaceResult =
  ret_code :: int
  result_order_id :: "string option"

record EntryEnv =
  orderbook :: "int \<Rightarrow> OrderBook"
  place_answer :: "int \<Rightarrow> PlaceResult"
  fill_answer :: "int \<Rightarrow> bool"

text \<open>\<open>_get_entry_price(symbol, side)\<close>: best bid for a long entry, best ask for a short one.\<close>

definition get_entry_price :: "OrderBook \<Rightarrow> Side \<Rightarrow> decimal option" where
  "get_entry_price ob side =
     (if bids ob = [] \<or> asks ob = [] then None
      else if side = LONG then Some (hd (bids ob))
      else Some (hd (asks ob)))"

datatype TimeInForce = PostOnly | GTC

text \<open>
  What the executor does towards the outside during an entry, in order: an order placed
  (with the attempt number, the time in force, the price and the quantity), a sleep (in
  seconds), a cancelled order.
\<close>

datatype exec_event =
  OrderPlaced int TimeInForce decimal decimal
| Sleep decimal
| OrderCancelled string

text \<open>
  The time in force and the tier of an attempt: PostOnly and the attempt number for the
  first \<open>post_only_retries\<close> attempts, GTC and 3 after them. The tier is only logged.
\<close>

definition time_in_force :: "ExecutionConfig \<Rightarrow> int \<Rightarrow> TimeInForce" where
  "time_in_force cfg attempt = (if attempt \<le> post_only_retries cfg then PostOnly else GTC)"

definition tier :: "ExecutionConfig \<Rightarrow> int \<Rightarrow> int" where
  "tier cfg attempt = (if attempt \<le> post_only_retries cfg then attempt else 3)"

text \<open>
  The loop \<open>for attempt in range(1, max_fill_retries + 1)\<close> of \<open>execute_entry\<close>, over the
  attempt numbers that are left: \<open>continue\<close> goes on with the rest of the range, \<open>return\<close>
  ends the loop, and the exhausted range cancels the trade.
\<close>

fun entry_attempts ::
  "ExecutionConfig \<Rightarrow> EntryEnv \<Rightarrow> CoinInfo \<Rightarrow> decimal \<Rightarrow> Trade \<Rightarrow> exec_event list \<Rightarrow>
   int list \<Rightarrow> bool \<times> Trade \<times> exec_event list" where
  "entry_attempts cfg env coin notional trade trace [] =
     (False, trade\<lparr>trade_status := CANCELLED\<rparr>, trace)"
| "entry_attempts cfg env coin notional trade trace (attempt # rest) =
     (let trade1 = trade\<lparr>fill_attempts := attempt\<rparr>;
          tif = time_in_force cfg attempt
      in case get_entry_price (orderbook env attempt) (trade_side trade1) of
           None \<Rightarrow> entry_attempts cfg env coin notional trade1 trace rest
         | Some p0 \<Rightarrow>
             (case calculate_qty notional p0 coin of
                None \<Rightarrow> (False, trade1, trace)
              | Some q \<Rightarrow>
                  if q \<le> 0 then (False, trade1, trace)
                  else
                    (let p = round_price p0 (tick_size coin) (trade_side trade1);
                         trace1 = trace @ [OrderPlaced attempt tif p q];
                         answer = place_answer env attempt
                     in if ret_code answer = 170213 \<or> ret_code answer = 170217 then
                          entry_attempts cfg env coin notional trade1 (trace1 @ [Sleep 1]) rest
                        else if ret_code answer \<noteq> 0 then
                          entry_attempts cfg env coin notional trade1 (trace1 @ [Sleep 1]) rest
                        else
                          (case result_order_id answer of
                             None \<Rightarrow> entry_attempts cfg env coin notional trade1 trace1 rest
                           | Some oid \<Rightarrow>
                               if oid = [] then entry_attempts cfg env coin notional trade1 trace1 rest
                               else
                                 (let trade2 = trade1\<lparr>order_id := Some oid\<rparr>
                                  in if fill_answer env attempt then
                                       (True,
                                        trade2\<lparr>entry_price := Some p, qty := Some q,
                                               trade_status := OPEN\<rparr>,
                                        trace1)
                                     else
                                       entry_attempts cfg env coin notional trade2
                                         (trace1 @ [OrderCancelled oid, Sleep (1 / 2)]) rest)))))"

text \<open>\<open>execute_entry(trade, coin, position_size_usdt)\<close>.\<close>

definition execute_entry ::
  "ExecutionConfig \<Rightarrow> EntryEnv \<Rightarrow> Trade \<Rightarrow> CoinInfo \<Rightarrow> decimal \<Rightarrow>
   bool \<times> Trade \<times> exec_event list" where
  "execute_entry cfg env trade coin position_size_usdt =
     entry_attempts cfg env coin position_size_usdt (trade\<lparr>trade_status := FILLING\<rparr>) []
       [1 .. max_fill_retries cfg]"

section \<open>Coin selector and the refresh loop (core/coin_selector.py, main.py)\<close>

text \<open>
  The fields \<open>refresh\<close> reads of a ticker (\<open>turnover24h\<close>, already defaulted to 0) and of
  an instrument (the three filter values, absent or given).
\<close>

record Ticker =
  ticker_symbol :: string
  turnover24h :: decimal

record Instrument =
  inst_symbol :: string
  min_order_qty :: "decimal option"
  inst_qty_step :: "decimal option"
  inst_tick_size :: "decimal option"

record CoinSelector =
  num_coins :: int
  excluded :: "string list"
  coins :: "(string \<times> CoinInfo) list"

text \<open>Python's \<open>s.endswith(suffix)\<close> and \<open>s.replace(old, new)\<close> for a non-empty \<open>old\<close>.\<close>

definition ends_with :: "string \<Rightarrow> string \<Rightarrow> bool" where
  "ends_with s suffix =
     (length suffix \<le> length s \<and> drop (length s - length suffix) s = suffix)"

function str_replace :: "string \<Rightarrow> string \<Rightarrow> string \<Rightarrow> string" where
  "str_replace old new [] = []"
| "str_replace old new (ch # rest) =
     (if old \<noteq> [] \<and> take (length old) (ch # rest) = old then
        new @ str_replace old new (drop (length old) (ch # rest))
      else ch # str_replace old new rest)"
  by pat_completeness auto
termination
  by (relation "measure (\<lambda>(old, new, s). length s)") auto

text \<open>Python's \<open>xs[:n]\<close>: the first n elements, or all but the last -n for a negative n.\<close>

definition py_prefix :: "int \<Rightarrow> 'a list \<Rightarrow> 'a list" where
  "py_prefix n xs = (if n \<ge> 0 then take (nat n) xs else take (length xs - nat (- n)) xs)"

text \<open>
  The candidates of \<open>refresh\<close>: for every ticker, in order, whose symbol ends with USDT,
  whose base and symbol are not excluded and which has an instrument, the symbol, the
  base, the turnover and the instrument (the last one listed for the symbol).
\<close>

definition inst_map :: "Instrument list \<Rightarrow> (string \<rightharpoonup> Instrument)" where
  "inst_map instruments = map_of (rev (map (\<lambda>inst. (inst_symbol inst, inst)) instruments))"

fun candidates_of ::
  "string list \<Rightarrow> (string \<rightharpoonup> Instrument) \<Rightarrow> Ticker list \<Rightarrow>
   (string \<times> string \<times> decimal \<times> Instrument) list" where
  "candidates_of excl im [] = []"
| "candidates_of excl im (ticker # rest) =
     (let symbol = ticker_symbol ticker
      in if \<not> ends_with symbol ''USDT'' then candidates_of excl im rest
         else
           (let base = str_replace ''USDT'' [] symbol
            in if base \<in> set excl \<or> symbol \<in> set excl then candidates_of excl im rest
               else
                 (case im symbol of
                    None \<Rightarrow> candidates_of excl im rest
                  | Some inst \<Rightarrow>
                      (symbol, base, turnover24h ticker, inst) # candidates_of excl im rest)))"

text \<open>
  The loop that builds \<open>new_coins\<close> from the top candidates: a coin that was tracked
  before keeps its \<open>last_ha\<close>, \<open>prev_ha\<close>, \<open>cooldown_until\<close> and \<open>in_active_trade\<close>.
\<close>

definition new_coin ::
  "(string \<times> CoinInfo) list \<Rightarrow> string \<times> string \<times> decimal \<times> Instrument \<Rightarrow> CoinInfo" where
  "new_coin old_coins cand =
     (case cand of (symbol, base, volume, inst) \<Rightarrow>
        (let coin = \<lparr>coin_symbol = symbol, base_coin = base, volume_24h = volume,
                     min_qty = (case min_order_qty inst of None \<Rightarrow> 1 / 1000 | Some v \<Rightarrow> v),
                     qty_step = (case inst_qty_step inst of None \<Rightarrow> 1 / 1000 | Some v \<Rightarrow> v),
                     tick_size = (case inst_tick_size inst of None \<Rightarrow> 1 / 100 | Some v \<Rightarrow> v),
                     last_ha = None, coin_prev_ha = None, cooldown_until = None,
                     in_active_trade = False\<rparr>
         in case map_of old_coins symbol of
              None \<Rightarrow> coin
            | Some old \<Rightarrow>
                coin\<lparr>last_ha := last_ha old, coin_prev_ha := coin_prev_ha old,
                     cooldown_until := cooldown_until old,
                     in_active_trade := in_active_trade old\<rparr>))"

fun build_new_coins ::
  "(string \<times> CoinInfo) list \<Rightarrow> (string \<times> string \<times> decimal \<times> Instrument) list \<Rightarrow>
   (string \<times> CoinInfo) list \<Rightarrow> (string \<times> CoinInfo) list" where
  "build_new_coins old_coins [] new_coins = new_coins"
| "build_new_coins old_coins (cand # rest) new_coins =
     build_new_coins old_coins rest (AList.update (fst cand) (new_coin old_coins cand) new_coins)"

text \<open>
  \<open>refresh(client)\<close>, with the tickers and the instruments the client returns. The
  candidates are sorted by turnover, largest first (a stable sort), and cut to the first
  \<open>num_coins\<close>. The result is the new selector with the lists of added and of removed
  symbols (set differences in the source; here in dictionary order).
\<close>

definition refresh ::
  "CoinSelector \<Rightarrow> Ticker list \<Rightarrow> Instrument list \<Rightarrow> CoinSelector \<times> string list \<times> string list" where
  "refresh cs tickers instruments =
     (let old_symbols = map fst (coins cs);
          candidates = candidates_of (excluded cs) (inst_map instruments) tickers;
          sorted_candidates = sort_key (\<lambda>(symbol, base, volume, inst). - volume) candidates;
          new_coins = build_new_coins (coins cs) (py_prefix (num_coins cs) sorted_candidates) [];
          new_symbols = map fst new_coins;
          added = filter (\<lambda>s. s \<notin> set old_symbols) new_symbols;
          removed = filter (\<lambda>s. s \<notin> set new_symbols) old_symbols
      in (cs\<lparr>coins := new_coins\<rparr>, added, removed))"

text \<open>\<open>set_in_trade(symbol, in_trade)\<close> and \<open>is_in_trade(symbol)\<close>.\<close>

definition set_in_trade :: "CoinSelector \<Rightarrow> string \<Rightarrow> bool \<Rightarrow> CoinSelector" where
  "set_in_trade cs symbol in_trade =
     (case map_of (coins cs) symbol of
        None \<Rightarrow> cs
      | Some coin \<Rightarrow>
          cs\<lparr>coins := AList.update symbol (coin\<lparr>in_active_trade := in_trade\<rparr>) (coins cs)\<rparr>)"

definition is_in_trade :: "CoinSelector \<Rightarrow> string \<Rightarrow> bool" where
  "is_in_trade cs symbol =
     (case map_of (coins cs) symbol of None \<Rightarrow> False | Some coin \<Rightarrow> in_active_trade coin)"

text \<open>
  The subscriptions of the public WebSocket (exchange/bybit_ws.py): a set of topics, kept
  here as a list without repetitions. A symbol has three topics.
\<close>

definition symbol_topics :: "string \<Rightarrow> string list" where
  "symbol_topics symbol =
     [''kline.240.'' @ symbol, ''kline.15.'' @ symbol, ''tickers.'' @ symbol]"

definition subscribe_symbols :: "string list \<Rightarrow> string list \<Rightarrow> string list" where
  "subscribe_symbols subs symbols =
     subs @ remdups (filter (\<lambda>t. t \<notin> set subs) (concat (map symbol_topics symbols)))"

definition unsubscribe_symbols :: "string list \<Rightarrow> string list \<Rightarrow> string list" where
  "unsubscribe_symbols subs symbols =
     filter (\<lambda>t. t \<notin> set (concat (map symbol_topics symbols))) subs"

text \<open>
  One pass of \<open>_coin_refresh_loop\<close>: refresh, subscribe the added symbols and load their
  history (\<open>history\<close> gives the parsed 4h candles of a symbol), then unsubscribe the
  removed symbols that \<open>is_in_trade\<close> does not report as in a trade, and drop their HA
  state. The ATR buffers, which the loop fills and drops alongside, are left out.
\<close>

record Bot =
  coin_selector :: CoinSelector
  public_subs :: "string list"
  bot_ha_engine :: HeikenAshiEngine

definition load_single_coin_history ::
  "(string \<Rightarrow> Candle list) \<Rightarrow> HeikenAshiEngine \<Rightarrow> string \<Rightarrow> HeikenAshiEngine" where
  "load_single_coin_history history eng symbol =
     (if history symbol \<noteq> [] then fst (build_from_history eng symbol (history symbol)) else eng)"

definition coin_refresh_pass ::
  "Bot \<Rightarrow> Ticker list \<Rightarrow> Instrument list \<Rightarrow> (string \<Rightarrow> Candle list) \<Rightarrow> Bot" where
  "coin_refresh_pass app tickers instruments history =
     (case refresh (coin_selector app) tickers instruments of
        (cs, added, removed) \<Rightarrow>
          (let subs1 = (if added \<noteq> [] then subscribe_symbols (public_subs app) added
                        else public_subs app);
               eng1 = foldl (load_single_coin_history history) (bot_ha_engine app) added;
               safe_to_remove = filter (\<lambda>s. \<not> is_in_trade cs s) removed;
               subs2 = (if safe_to_remove \<noteq> [] then unsubscribe_symbols subs1 safe_to_remove
                        else subs1);
               eng2 = foldl remove_symbol eng1 safe_to_remove
           in \<lparr>coin_selector = cs, public_subs = subs2, bot_ha_engine = eng2\<rparr>))"

section \<open>Heiken Ashi engine: the chain of HA candles\<close>

text \<open>The series the loop builds, without the accumulator.\<close>

fun ha_chain :: "Candle list \<Rightarrow> HACandle option \<Rightarrow> HACandle list" where
  "ha_chain [] prev = []"
| "ha_chain (candle # rest) prev =
     calc_single candle prev # ha_chain rest (Some (calc_single candle prev))"

lemma ha_loop_chain: "ha_loop cs prev acc = acc @ ha_chain cs prev"
  by (induction cs arbitrary: prev acc) (simp_all add: Let_def)

lemma length_ha_chain [simp]: "length (ha_chain cs prev) = length cs"
  by (induction cs arbitrary: prev) simp_all


lemma ha_chain_snoc:
  "ha_chain (cs @ [c]) prev =
     ha_chain cs prev @
       [calc_single c (if cs = [] then prev else Some (last (ha_chain cs prev)))]"
proof (induction cs arbitrary: prev)
  case Nil
  then show ?case by simp
next
  case (Cons d ds)
  show ?case
  proof (cases "ds = []")
    case True
    then show ?thesis by simp
  next
    case False
    then have "ha_chain ds (Some (calc_single d prev)) \<noteq> []"
      by (cases ds) simp_all
    with False Cons.IH [of "Some (calc_single d prev)"] show ?thesis by simp
  qed
qed

lemma ha_chain_Nil_iff [simp]: "ha_chain cs prev = [] \<longleftrightarrow> cs = []"
  by (cases cs) simp_all

lemma build_series:
  "snd (build_from_history eng symbol candles) = ha_chain candles None"
  by (simp add: build_from_history_def ha_loop_chain Let_def)


lemma build_state:
  "candles \<noteq> [] \<Longrightarrow>
   fst (build_from_history eng symbol candles) =
     eng\<lparr>ha_series := (ha_series eng)(symbol \<mapsto> ha_chain candles None),
         prev_ha := (prev_ha eng)(symbol \<mapsto> last (ha_chain candles None))\<rparr>"
  by (simp add: build_from_history_def ha_loop_chain Let_def)


lemma update_state:
  "fst (update eng symbol c) =
     eng\<lparr>ha_series := (ha_series eng)(symbol \<mapsto>
            keep_last 50 ((case ha_series eng symbol of None \<Rightarrow> [] | Some s \<Rightarrow> s)
                           @ [calc_single c (prev_ha eng symbol)])),
         prev_ha := (prev_ha eng)(symbol \<mapsto> calc_single c (prev_ha eng symbol))\<rparr>"
  by (simp add: update_def Let_def)

subsection \<open>Concrete candles\<close>

definition mk_candle :: "int \<Rightarrow> decimal \<Rightarrow> decimal \<Rightarrow> decimal \<Rightarrow> decimal \<Rightarrow> bool \<Rightarrow> Candle" where
  "mk_candle ts op hi lo cl conf =
     \<lparr>c_timestamp = ts, c_open = op, c_high = hi, c_low = lo, c_close = cl,
      c_volume = 0, c_confirmed = conf\<rparr>"

text \<open>The engine as \<open>__init__\<close> leaves it: both dictionaries empty.\<close>

definition ha_engine_init :: HeikenAshiEngine where
  "ha_engine_init = \<lparr>ha_series = Map.empty, prev_ha = Map.empty\<rparr>"

definition candle_a :: Candle where
  "candle_a = mk_candle 0 100 104 96 102 True"

definition candle_b :: Candle where
  "candle_b = mk_candle 1 102 110 100 108 True"

definition candle_c :: Candle where
  "candle_c = mk_candle 2 108 109 90 92 True"

subsection \<open>Concrete klines and feeds\<close>

definition mk_kline ::
  "string \<Rightarrow> bool \<Rightarrow> int \<Rightarrow> decimal \<Rightarrow> decimal \<Rightarrow> decimal \<Rightarrow> decimal \<Rightarrow> Kline" where
  "mk_kline symb conf start op hi lo cl =
     \<lparr>k_symbol = symb, k_confirm = conf, k_start = start, k_open = op, k_high = hi,
      k_low = lo, k_close = cl, k_volume = 0\<rparr>"

text \<open>An engine whose last confirmed HA candle of BTCUSDT is bearish.\<close>

definition eng_bear :: HeikenAshiEngine where
  "eng_bear =
     fst (build_from_history ha_engine_init ''BTCUSDT'' [mk_candle 0 100 100 80 90 True])"

text \<open>
  Rising live 4h candles of the windows starting at 2 and at 3, falling confirmed candles
  of the windows starting at 1 and at 2, and a confirmed 5m kline that names no symbol (the
  symbol comes from the topic).
\<close>

definition live_b :: Kline where
  "live_b = mk_kline ''BTCUSDT'' False 2 90 120 90 120"

definition live_c :: Kline where
  "live_c = mk_kline ''BTCUSDT'' False 3 90 120 90 120"

definition conf_a :: Kline where
  "conf_a = mk_kline ''BTCUSDT'' True 1 100 100 60 60"

definition conf_b :: Kline where
  "conf_b = mk_kline ''BTCUSDT'' True 2 100 100 60 60"

definition five_m :: Kline where
  "five_m = mk_kline [] True 0 1 1 1 1"

lemmas concrete_feed_defs =
  on_kline_240_def on_kline_5_def kline_240_step_def kline_5_step_def five_m_def
  kline_symbol_def live_b_def live_c_def conf_a_def conf_b_def mk_kline_def kline_candle_def
  signal_engine_init_def eng_bear_def build_from_history_def calc_live_def update_def
  calc_single_def detect_flip_def is_bullish_def is_bearish_def mk_candle_def
  ha_engine_init_def keep_last_def Let_def

section \<open>C7: the Heiken Ashi formulas\<close>



section \<open>C8: history followed by an update against one longer history\<close>

lemma keep_last_short: "length xs \<le> n \<Longrightarrow> keep_last n xs = xs"
  by (simp add: keep_last_def)

lemma length_keep_last: "length (keep_last n xs) = min n (length xs)"
  by (simp add: keep_last_def)

text \<open>
  C8 as stated says that \<open>build_from_history(symbol, candles)\<close> followed by
  \<open>update(symbol, c)\<close> leaves the same per-symbol state as
  \<open>build_from_history(symbol, candles + [c])\<close>, for every non-empty history. The
  previous-HA pointer is indeed the same, but \<open>update\<close> cuts the stored series to its
  last 50 entries while \<open>build_from_history\<close> stores the whole series. With a history
  of 50 candles the first path stores 50 HA candles and the second one 51.
\<close>

theorem build_then_update_counterexample:
  "length (the (ha_series
      (fst (update (fst (build_from_history ha_engine_init ''BTCUSDT'' (replicate 50 candle_a)))
             ''BTCUSDT'' candle_b)) ''BTCUSDT'')) = 50 \<and>
   length (the (ha_series
      (fst (build_from_history ha_engine_init ''BTCUSDT'' (replicate 50 candle_a @ [candle_b])))
      ''BTCUSDT'')) = 51 \<and>
   fst (update (fst (build_from_history ha_engine_init ''BTCUSDT'' (replicate 50 candle_a)))
          ''BTCUSDT'' candle_b) \<noteq>
   fst (build_from_history ha_engine_init ''BTCUSDT'' (replicate 50 candle_a @ [candle_b]))"
proof -
  let ?e2 = "fst (update (fst (build_from_history ha_engine_init ''BTCUSDT''
                (replicate 50 candle_a))) ''BTCUSDT'' candle_b)"
  let ?e3 = "fst (build_from_history ha_engine_init ''BTCUSDT''
                (replicate 50 candle_a @ [candle_b]))"
  have ne: "replicate 50 candle_a \<noteq> []" by simp
  have ne': "replicate 50 candle_a @ [candle_b] \<noteq> []" by simp
  have l2: "length (the (ha_series ?e2 ''BTCUSDT'')) = 50"
    unfolding build_state [OF ne] update_state by (simp add: length_keep_last)
  have l3: "length (the (ha_series ?e3 ''BTCUSDT'')) = 51"
    unfolding build_state [OF ne'] by simp
  from l2 l3 have "?e2 \<noteq> ?e3" by auto
  with l2 l3 show ?thesis by simp
qed

text \<open>
  C8, amended. For every non-empty history and next confirmed candle c, the two paths
  leave the same previous-HA pointer for every symbol, and the HA series stored by
  build-then-update is the last 50 entries of the series stored by the single
  \<open>build_from_history(symbol, candles + [c])\<close> (other symbols' series are equal). The
  two final states are identical when the history has fewer than 50 candles.
\<close>

theorem build_then_update:
  assumes "candles \<noteq> []"
  shows "let e2 = fst (update (fst (build_from_history eng symbol candles)) symbol c);
             e3 = fst (build_from_history eng symbol (candles @ [c]))
         in prev_ha e2 = prev_ha e3 \<and>
            ha_series e3 symbol = Some (snd (build_from_history eng symbol (candles @ [c]))) \<and>
            ha_series e2 =
              (ha_series e3)(symbol \<mapsto>
                 keep_last 50 (snd (build_from_history eng symbol (candles @ [c])))) \<and>
            (length candles < 50 \<longrightarrow> e2 = e3)"
proof -
  have ne: "candles @ [c] \<noteq> []" by simp
  show ?thesis
    unfolding Let_def build_series build_state [OF assms] build_state [OF ne] update_state
    using assms
    by (simp add: ha_chain_snoc keep_last_short)
qed

theorem build_then_update_witness:
  "[candle_a, candle_b] \<noteq> [] \<and>
   fst (update (fst (build_from_history ha_engine_init ''BTCUSDT'' [candle_a, candle_b]))
          ''BTCUSDT'' candle_c) =
   fst (build_from_history ha_engine_init ''BTCUSDT'' ([candle_a, candle_b] @ [candle_c]))"
  using build_then_update [of "[candle_a, candle_b]" ha_engine_init "''BTCUSDT''" candle_c]
  by (simp add: Let_def)

section \<open>C1: the 5-minute handler evaluates flips through calc_live, read-only\<close>

lemma kline_5_step_ha: "ha_engine (kline_5_step topic se kline) = ha_engine se"
  by (simp add: kline_5_step_def calc_live_def Let_def split: option.splits)

lemma on_kline_5_ha: "ha_engine (on_kline_5 topic kline_data se) = ha_engine se"
  unfolding on_kline_5_def
  by (induction kline_data arbitrary: se) (simp_all add: kline_5_step_ha)

text \<open>
  C1. For every confirmed 5-minute kline of a symbol that has a cached live 4h candle,
  the handler evaluates the flip by calling \<open>calc_live\<close> on that cached candle: the live HA
  candle is chained on the stored previous-confirmed HA candle of the symbol, the
  optional signal is the flip between the two, and the call is read-only: the engine it
  returns, and the engine after the handler's step, is the engine before it, and the
  stored series and the previous-HA pointer are unchanged by a whole 5m message. What
  the step passes on to signal processing is that signal, unless the symbol's marker
  equals the start of the cached candle.
\<close>

theorem on_kline_5_calc_live:
  assumes "k_confirm kline"
    and "live_4h_candle se (kline_symbol topic kline) = Some live"
  shows "(let symbol = kline_symbol topic kline;
              prev = prev_ha (ha_engine se) symbol;
              result = calc_live (ha_engine se) symbol live;
              live_ha = fst (snd result);
              signal = snd (snd result);
              se' = kline_5_step topic se kline
          in fst result = ha_engine se \<and>
             live_ha = calc_single live prev \<and>
             signal = (case prev of None \<Rightarrow> None | Some p \<Rightarrow> detect_flip symbol p live_ha) \<and>
             ha_engine se' = ha_engine se \<and>
             live_4h_candle se' = live_4h_candle se \<and>
             processed_signals se' =
               processed_signals se @
                 (case signal of
                    None \<Rightarrow> []
                  | Some sg \<Rightarrow>
                      if flip_acted_this_window se symbol = Some (c_timestamp live) then []
                      else [(symbol, c_timestamp live, sg)])) \<and>
         ha_series (ha_engine (on_kline_5 topic kline_data se)) = ha_series (ha_engine se) \<and>
         prev_ha (ha_engine (on_kline_5 topic kline_data se)) = prev_ha (ha_engine se)"
  using assms
  by (simp add: on_kline_5_ha kline_5_step_def calc_live_def Let_def split: option.splits)

text \<open>
  At the bearish engine with the rising live candle cached: the step leaves the engine
  as it was and passes one LONG signal on, for the window starting at 2.
\<close>

theorem on_kline_5_calc_live_witness:
  "k_confirm five_m \<and>
   live_4h_candle (kline_240_step ''kline.240.BTCUSDT'' (signal_engine_init eng_bear) live_b)
     (kline_symbol ''kline.5.BTCUSDT'' five_m) = Some (kline_candle live_b) \<and>
   ha_engine (kline_5_step ''kline.5.BTCUSDT''
     (kline_240_step ''kline.240.BTCUSDT'' (signal_engine_init eng_bear) live_b) five_m) = eng_bear \<and>
   map (\<lambda>(symbol, start, sg). (symbol, start, sig_side sg))
     (processed_signals (kline_5_step ''kline.5.BTCUSDT''
        (kline_240_step ''kline.240.BTCUSDT'' (signal_engine_init eng_bear) live_b) five_m)) =
     [(''BTCUSDT'', 2, LONG)]"
proof -
  let ?se = "kline_240_step ''kline.240.BTCUSDT'' (signal_engine_init eng_bear) live_b"
  have c: "k_confirm five_m" by (simp add: five_m_def mk_kline_def)
  have l: "live_4h_candle ?se (kline_symbol ''kline.5.BTCUSDT'' five_m) = Some (kline_candle live_b)"
    by (simp add: kline_240_step_def kline_symbol_def five_m_def live_b_def mk_kline_def
        signal_engine_init_def Let_def)
  have e: "ha_engine ?se = eng_bear"
    by (simp add: kline_240_step_def live_b_def mk_kline_def signal_engine_init_def Let_def)
  from on_kline_5_calc_live [OF c l, of "[]"]
  have "ha_engine (kline_5_step ''kline.5.BTCUSDT'' ?se five_m) = ha_engine ?se"
    by (simp add: Let_def)
  moreover have "map (\<lambda>(symbol, start, sg). (symbol, start, sig_side sg))
     (processed_signals (kline_5_step ''kline.5.BTCUSDT'' ?se five_m)) = [(''BTCUSDT'', 2, LONG)]"
    by (simp add: concrete_feed_defs)
  ultimately show ?thesis using c l e by simp
qed

section \<open>C4: one acted flip per symbol and window\<close>





























subsection \<open>The claim as stated fails when the feed is not in window order\<close>




subsection \<open>The amended claim\<close>





section \<open>Risk manager: stop-loss updates and TP checks\<close>

lemma update_sl_side [simp]: "trade_side (snd (update_sl ex w t n)) = trade_side t"
  by (simp add: update_sl_def Let_def)

lemma update_sl_blocked:
  "sl_regression t n \<Longrightarrow> update_sl ex w t n = (w, t)"
  by (simp add: update_sl_def)

lemma update_sl_trade:
  "snd (update_sl ex w t n) =
     (if \<not> sl_regression t n \<and> ex (sl_calls w) (trade_symbol t) n = Some 0
      then t\<lparr>current_sl_price := Some n\<rparr> else t)"
  by (simp add: update_sl_def Let_def)

lemma update_sl_calls:
  "sl_calls (fst (update_sl ex w t n)) =
     sl_calls w @ (if sl_regression t n then [] else [(trade_symbol t, n)])"
  by (simp add: update_sl_def Let_def)

lemma update_sl_db:
  "db_trades (fst (update_sl ex w t n)) =
     (if \<not> sl_regression t n \<and> ex (sl_calls w) (trade_symbol t) n = Some 0
      then update_trade (db_trades w) (t\<lparr>current_sl_price := Some n\<rparr>) else db_trades w)"
  by (simp add: update_sl_def Let_def)

lemma update_sl_mono:
  assumes "current_sl_price t = Some c"
  shows "\<exists>c'. current_sl_price (snd (update_sl ex w t n)) = Some c' \<and>
              (trade_side t = LONG \<longrightarrow> c \<le> c') \<and> (trade_side t = SHORT \<longrightarrow> c' \<le> c)"
proof (cases "\<not> sl_regression t n \<and> ex (sl_calls w) (trade_symbol t) n = Some 0")
  case True
  then have "\<not> sl_regression t n" by simp
  with assms have "(trade_side t = LONG \<longrightarrow> c < n) \<and> (trade_side t = SHORT \<longrightarrow> n < c)"
    by (auto simp: sl_regression_def split: if_splits)
  with True show ?thesis by (auto simp: update_sl_trade)
next
  case False
  with assms show ?thesis by (auto simp: update_sl_trade)
qed

lemma tp_loop_highest: "nh \<le> snd (tp_loop side mark tps nh)"
proof (induction tps arbitrary: nh)
  case Nil
  then show ?case by simp
next
  case (Cons tp tps)
  have a: "nh \<le> snd (tp_loop side mark tps nh)" by (rule Cons.IH)
  have "max nh (level tp) \<le> snd (tp_loop side mark tps (max nh (level tp)))" by (rule Cons.IH)
  then have b: "nh \<le> snd (tp_loop side mark tps (max nh (level tp)))" by simp
  from a b show ?case by (simp add: split_beta)
qed

lemma tp_loop_prices:
  "map (\<lambda>tp. (level tp, price tp)) (fst (tp_loop side mark tps nh)) =
   map (\<lambda>tp. (level tp, price tp)) tps"
  by (induction tps arbitrary: nh) (simp_all add: split_beta)

lemma get_tp_price_map:
  "map (\<lambda>tp. (level tp, price tp)) xs = map (\<lambda>tp. (level tp, price tp)) ys \<Longrightarrow>
   get_tp_price xs lvl = get_tp_price ys lvl"
proof (induction xs arbitrary: ys)
  case Nil
  then show ?case by simp
next
  case (Cons x xs)
  then obtain y ys' where ys: "ys = y # ys'" by (cases ys) auto
  with Cons.prems have h: "level x = level y" "price x = price y"
    and t: "map (\<lambda>tp. (level tp, price tp)) xs = map (\<lambda>tp. (level tp, price tp)) ys'"
    by simp_all
  from Cons.IH [OF t] h ys show ?case by simp
qed

lemma get_tp_price_loop:
  "get_tp_price (fst (tp_loop side mark tps nh)) lvl = get_tp_price tps lvl"
  by (rule get_tp_price_map) (rule tp_loop_prices)

lemma get_tp_price_mem:
  "get_tp_price tps lvl = Some p \<Longrightarrow> \<exists>tp \<in> set tps. level tp = lvl \<and> price tp = p"
proof (induction tps)
  case Nil
  then show ?case by simp
next
  case (Cons tp tps)
  show ?case
  proof (cases "level tp = lvl")
    case True
    with Cons.prems show ?thesis by simp
  next
    case False
    with Cons.prems have "get_tp_price tps lvl = Some p" by simp
    from Cons.IH [OF this] show ?thesis by auto
  qed
qed

lemma check_tp_levels_highest:
  "highest_tp_reached (snd (check_tp_levels ex w t mark)) =
     snd (tp_loop (trade_side t) mark (tp_levels t) (highest_tp_reached t))"
proof -
  obtain tps nh where l: "tp_loop (trade_side t) mark (tp_levels t) (highest_tp_reached t) = (tps, nh)"
    by (cases "tp_loop (trade_side t) mark (tp_levels t) (highest_tp_reached t)")
  from tp_loop_highest [of "highest_tp_reached t" "trade_side t" mark "tp_levels t"] l
  have ge: "highest_tp_reached t \<le> nh" by simp
  show ?thesis
  proof (cases "highest_tp_reached t < nh")
    case True
    with l show ?thesis
      by (simp add: check_tp_levels_def Let_def split_beta update_sl_trade split: option.splits)
  next
    case False
    with ge have "nh = highest_tp_reached t" by simp
    with l show ?thesis by (simp add: check_tp_levels_def Let_def)
  qed
qed

lemma check_tp_levels_unraised:
  assumes "highest_tp_reached (snd (check_tp_levels ex w t mark)) \<le> 1 \<or>
           highest_tp_reached (snd (check_tp_levels ex w t mark)) = highest_tp_reached t"
  shows "sl_calls (fst (check_tp_levels ex w t mark)) = sl_calls w \<and>
         current_sl_price (snd (check_tp_levels ex w t mark)) = current_sl_price t"
proof -
  obtain tps nh where l: "tp_loop (trade_side t) mark (tp_levels t) (highest_tp_reached t) = (tps, nh)"
    by (cases "tp_loop (trade_side t) mark (tp_levels t) (highest_tp_reached t)")
  from assms l have "nh \<le> 1 \<or> nh = highest_tp_reached t"
    by (simp add: check_tp_levels_highest)
  with l show ?thesis
    by (auto simp: check_tp_levels_def Let_def)
qed

lemma check_tp_levels_raised:
  assumes "highest_tp_reached t < highest_tp_reached (snd (check_tp_levels ex w t mark))"
    and "2 \<le> highest_tp_reached (snd (check_tp_levels ex w t mark))"
  shows "sl_calls (fst (check_tp_levels ex w t mark)) =
           sl_calls w @
             (case get_tp_price (tp_levels t)
                     (highest_tp_reached (snd (check_tp_levels ex w t mark)) - 1) of
                None \<Rightarrow> []
              | Some p \<Rightarrow> if sl_regression t p then [] else [(trade_symbol t, p)])"
proof -
  obtain tps nh where l: "tp_loop (trade_side t) mark (tp_levels t) (highest_tp_reached t) = (tps, nh)"
    by (cases "tp_loop (trade_side t) mark (tp_levels t) (highest_tp_reached t)")
  from assms l have nh: "highest_tp_reached t < nh" "2 \<le> nh"
    by (simp_all add: check_tp_levels_highest)
  from l have f: "get_tp_price tps (nh - 1) = get_tp_price (tp_levels t) (nh - 1)"
    using get_tp_price_loop [of "trade_side t" mark "tp_levels t" "highest_tp_reached t" "nh - 1"]
    by simp
  have h: "highest_tp_reached (snd (check_tp_levels ex w t mark)) = nh"
    using l by (simp add: check_tp_levels_highest)
  show ?thesis
    unfolding h using l nh f
    by (simp add: check_tp_levels_def Let_def split_beta update_sl_calls sl_regression_def
        split: option.splits)
qed

lemma check_tp_levels_side [simp]:
  "trade_side (snd (check_tp_levels ex w t mark)) = trade_side t"
  by (simp add: check_tp_levels_def Let_def split_beta split: option.splits)

lemma check_tp_levels_symbol [simp]:
  "trade_symbol (snd (check_tp_levels ex w t mark)) = trade_symbol t"
  by (simp add: check_tp_levels_def Let_def split_beta update_sl_trade split: option.splits)

lemma check_tp_levels_sl:
  "current_sl_price (snd (check_tp_levels ex w t mark)) = current_sl_price t \<or>
   (\<exists>t2 n. current_sl_price t2 = current_sl_price t \<and> trade_side t2 = trade_side t \<and>
      current_sl_price (snd (check_tp_levels ex w t mark)) =
        current_sl_price (snd (update_sl ex w t2 n)))"
proof -
  obtain tps nh where l: "tp_loop (trade_side t) mark (tp_levels t) (highest_tp_reached t) = (tps, nh)"
    by (cases "tp_loop (trade_side t) mark (tp_levels t) (highest_tp_reached t)")
  let ?t2 = "t\<lparr>tp_levels := tps, highest_tp_reached := nh\<rparr>"
  show ?thesis
  proof (cases "highest_tp_reached t < nh \<and> 2 \<le> nh \<and> get_tp_price tps (nh - 1) \<noteq> None")
    case True
    then obtain p where p: "get_tp_price tps (nh - 1) = Some p" by auto
    from True l p have "current_sl_price (snd (check_tp_levels ex w t mark)) =
        current_sl_price (snd (update_sl ex w ?t2 p))"
      by (simp add: check_tp_levels_def Let_def split_beta)
    moreover have "current_sl_price ?t2 = current_sl_price t" "trade_side ?t2 = trade_side t"
      by simp_all
    ultimately show ?thesis by blast
  next
    case False
    with l have "current_sl_price (snd (check_tp_levels ex w t mark)) = current_sl_price t"
      by (auto simp: check_tp_levels_def Let_def split_beta)
    then show ?thesis by simp
  qed
qed

lemma check_tp_levels_mono:
  assumes "current_sl_price t = Some c"
  shows "\<exists>c'. current_sl_price (snd (check_tp_levels ex w t mark)) = Some c' \<and>
              (trade_side t = LONG \<longrightarrow> c \<le> c') \<and> (trade_side t = SHORT \<longrightarrow> c' \<le> c)"
  using check_tp_levels_sl [of ex w t mark]
proof
  assume "current_sl_price (snd (check_tp_levels ex w t mark)) = current_sl_price t"
  with assms show ?thesis by simp
next
  assume "\<exists>t2 n. current_sl_price t2 = current_sl_price t \<and> trade_side t2 = trade_side t \<and>
      current_sl_price (snd (check_tp_levels ex w t mark)) =
        current_sl_price (snd (update_sl ex w t2 n))"
  then obtain t2 n where t2: "current_sl_price t2 = Some c" "trade_side t2 = trade_side t"
    and eq: "current_sl_price (snd (check_tp_levels ex w t mark)) =
        current_sl_price (snd (update_sl ex w t2 n))"
    using assms by auto
  from update_sl_mono [OF t2(1), of ex w n] t2(2) eq show ?thesis by simp
qed

lemma check_price_trade_cases:
  "check_price_trade ex w symbol mark t = (w, t) \<or>
   check_price_trade ex w symbol mark t = check_tp_levels ex w t mark"
  by (simp add: check_price_trade_def)

lemma run_ticks_mono:
  "current_sl_price t = Some c \<Longrightarrow>
   \<exists>c'. current_sl_price (snd (run_ticks ex w t marks)) = Some c' \<and>
        (trade_side t = LONG \<longrightarrow> c \<le> c') \<and> (trade_side t = SHORT \<longrightarrow> c' \<le> c)"
proof (induction marks arbitrary: w t c)
  case Nil
  then show ?case by simp
next
  case (Cons mark marks)
  obtain w1 t1 where s: "check_price_trade ex w (trade_symbol t) mark t = (w1, t1)"
    by (cases "check_price_trade ex w (trade_symbol t) mark t")
  have "\<exists>c1. current_sl_price t1 = Some c1 \<and> trade_side t1 = trade_side t \<and>
          (trade_side t = LONG \<longrightarrow> c \<le> c1) \<and> (trade_side t = SHORT \<longrightarrow> c1 \<le> c)"
    using check_price_trade_cases [of ex w "trade_symbol t" mark t]
  proof
    assume "check_price_trade ex w (trade_symbol t) mark t = (w, t)"
    with s Cons.prems show ?thesis by simp
  next
    assume "check_price_trade ex w (trade_symbol t) mark t = check_tp_levels ex w t mark"
    with s have "t1 = snd (check_tp_levels ex w t mark)" by simp
    with check_tp_levels_mono [OF Cons.prems, of ex w mark] show ?thesis by simp
  qed
  then obtain c1 where c1: "current_sl_price t1 = Some c1" "trade_side t1 = trade_side t"
    "trade_side t = LONG \<longrightarrow> c \<le> c1" "trade_side t = SHORT \<longrightarrow> c1 \<le> c" by blast
  from Cons.IH [OF c1(1), of w1] obtain c' where
    "current_sl_price (snd (run_ticks ex w1 t1 marks)) = Some c'"
    "trade_side t1 = LONG \<longrightarrow> c1 \<le> c'" "trade_side t1 = SHORT \<longrightarrow> c' \<le> c1" by blast
  with c1 s show ?case by auto
qed

lemma check_price_trade_highest:
  "highest_tp_reached t \<le> highest_tp_reached (snd (check_price_trade ex w symbol mark t))"
  using tp_loop_highest [of "highest_tp_reached t" "trade_side t" mark "tp_levels t"]
  by (simp add: check_price_trade_def check_tp_levels_highest)

lemma run_ticks_highest:
  "highest_tp_reached t \<le> highest_tp_reached (snd (run_ticks ex w t marks))"
proof (induction marks arbitrary: w t)
  case Nil
  then show ?case by simp
next
  case (Cons mark marks)
  obtain w1 t1 where s: "check_price_trade ex w (trade_symbol t) mark t = (w1, t1)"
    by (cases "check_price_trade ex w (trade_symbol t) mark t")
  from check_price_trade_highest [of t ex w "trade_symbol t" mark] s
  have "highest_tp_reached t \<le> highest_tp_reached t1" by simp
  with Cons.IH [of t1 w1] s show ?case by simp
qed

lemma run_ticks_low:
  "highest_tp_reached (snd (run_ticks ex w t marks)) \<le> 1 \<Longrightarrow>
   sl_calls (fst (run_ticks ex w t marks)) = sl_calls w \<and>
   current_sl_price (snd (run_ticks ex w t marks)) = current_sl_price t"
proof (induction marks arbitrary: w t)
  case Nil
  then show ?case by simp
next
  case (Cons mark marks)
  obtain w1 t1 where s: "check_price_trade ex w (trade_symbol t) mark t = (w1, t1)"
    by (cases "check_price_trade ex w (trade_symbol t) mark t")
  from Cons.prems s have fin: "highest_tp_reached (snd (run_ticks ex w1 t1 marks)) \<le> 1" by simp
  with run_ticks_highest [of t1 ex w1 marks] have h1: "highest_tp_reached t1 \<le> 1" by simp
  have "sl_calls w1 = sl_calls w \<and> current_sl_price t1 = current_sl_price t"
    using check_price_trade_cases [of ex w "trade_symbol t" mark t]
  proof
    assume "check_price_trade ex w (trade_symbol t) mark t = (w, t)"
    with s show ?thesis by simp
  next
    assume "check_price_trade ex w (trade_symbol t) mark t = check_tp_levels ex w t mark"
    with s have e: "check_tp_levels ex w t mark = (w1, t1)" by simp
    with h1 have "highest_tp_reached (snd (check_tp_levels ex w t mark)) \<le> 1" by simp
    then have "sl_calls (fst (check_tp_levels ex w t mark)) = sl_calls w \<and>
         current_sl_price (snd (check_tp_levels ex w t mark)) = current_sl_price t"
      by (intro check_tp_levels_unraised) simp
    then show ?thesis unfolding e by simp
  qed
  with Cons.IH [OF fin] s show ?case by simp
qed

subsection \<open>A concrete long trade\<close>

text \<open>
  A long trade entered at 100 with its stop-loss armed at 97.5 and TP levels 1 to 4 at
  101 to 104, its row in the trades table, an exchange that accepts every request and
  one that rejects every request.
\<close>

definition mk_tp :: "int \<Rightarrow> decimal \<Rightarrow> TPLevel" where
  "mk_tp n p = \<lparr>level = n, price = p, hit = False\<rparr>"

definition trade_long :: Trade where
  "trade_long =
     \<lparr>trade_id = Some 1, slot_id = 1, trade_symbol = ''BTCUSDT'', trade_side = LONG,
      entry_price = Some 100, qty = Some 1, order_id = Some ''o1'',
      current_sl_price = Some (195 / 2), initial_sl_price = Some (195 / 2),
      tp_levels = [mk_tp 1 101, mk_tp 2 102, mk_tp 3 103, mk_tp 4 104],
      highest_tp_reached = 0, atr_value = Some 1, trade_status = OPEN, pnl = None,
      fees = 0, exit_reason = None, fill_attempts = 1\<rparr>"

definition world0 :: RiskWorld where
  "world0 = \<lparr>db_trades = [1 \<mapsto> db_row trade_long], sl_calls = []\<rparr>"

definition ex_ok :: exchange where
  "ex_ok calls symbol stop_loss = Some 0"

definition ex_fail :: exchange where
  "ex_fail calls symbol stop_loss = Some 10001"

lemmas concrete_trade_defs =
  check_price_trade_def check_tp_levels_def update_sl_def sl_regression_def
  trade_long_def mk_tp_def ex_ok_def ex_fail_def world0_def Let_def

section \<open>C2: the stop-loss never regresses\<close>

text \<open>
  C2. For a trade whose stop-loss is armed (\<open>current_sl_price\<close> is set; an OPEN trade in
  particular), an attempted update whose new value is not strictly favourable (LONG: new
  value at most the current one; SHORT: at least the current one) is refused: nothing is
  sent to the exchange, nothing is written, and the trade is unchanged. Consequently
  every update attempt, and every run of mark-price ticks, leaves a stop-loss that is at
  least the earlier one for a LONG trade and at most the earlier one for a SHORT trade.
\<close>

theorem sl_never_regresses:
  "current_sl_price t = Some c \<longrightarrow>
     ((trade_side t = LONG \<and> n \<le> c) \<or> (trade_side t = SHORT \<and> n \<ge> c) \<longrightarrow>
        update_sl ex w t n = (w, t)) \<and>
     (\<exists>c'. current_sl_price (snd (update_sl ex w t n)) = Some c' \<and>
           (trade_side t = LONG \<longrightarrow> c \<le> c') \<and> (trade_side t = SHORT \<longrightarrow> c' \<le> c)) \<and>
     (\<exists>c'. current_sl_price (snd (run_ticks ex w t marks)) = Some c' \<and>
           (trade_side t = LONG \<longrightarrow> c \<le> c') \<and> (trade_side t = SHORT \<longrightarrow> c' \<le> c))"
proof (intro impI conjI)
  assume c: "current_sl_price t = Some c"
  assume "(trade_side t = LONG \<and> n \<le> c) \<or> (trade_side t = SHORT \<and> n \<ge> c)"
  with c have "sl_regression t n" by (auto simp: sl_regression_def)
  then show "update_sl ex w t n = (w, t)" by (rule update_sl_blocked)
next
  assume c: "current_sl_price t = Some c"
  then show "\<exists>c'. current_sl_price (snd (update_sl ex w t n)) = Some c' \<and>
           (trade_side t = LONG \<longrightarrow> c \<le> c') \<and> (trade_side t = SHORT \<longrightarrow> c' \<le> c)"
    by (rule update_sl_mono)
next
  assume c: "current_sl_price t = Some c"
  then show "\<exists>c'. current_sl_price (snd (run_ticks ex w t marks)) = Some c' \<and>
           (trade_side t = LONG \<longrightarrow> c \<le> c') \<and> (trade_side t = SHORT \<longrightarrow> c' \<le> c)"
    by (rule run_ticks_mono)
qed

text \<open>
  The long trade at stop-loss 97.5: an update to 97 is refused; over the ticks 102, 101,
  104 the stop-loss moves to 101 and then to 103.
\<close>

theorem sl_never_regresses_witness:
  "current_sl_price trade_long = Some (195 / 2) \<and> trade_side trade_long = LONG \<and>
   (97::decimal) \<le> 195 / 2 \<and>
   update_sl ex_ok world0 trade_long 97 = (world0, trade_long) \<and>
   current_sl_price (snd (run_ticks ex_ok world0 trade_long [102, 101, 104])) = Some 103"
proof -
  have a: "current_sl_price trade_long = Some (195 / 2)" "trade_side trade_long = LONG"
    by (simp_all add: trade_long_def)
  have b: "(97::decimal) \<le> 195 / 2" by simp
  from sl_never_regresses [of trade_long "195 / 2" 97 ex_ok world0 "[]"] a b
  have "update_sl ex_ok world0 trade_long 97 = (world0, trade_long)" by simp
  moreover have "current_sl_price (snd (run_ticks ex_ok world0 trade_long [102, 101, 104])) = Some 103"
    by (simp add: check_price_trade_def check_tp_levels_def update_sl_def sl_regression_def
        trade_long_def mk_tp_def ex_ok_def world0_def Let_def)
  ultimately show ?thesis using a b by simp
qed

section \<open>C3: the trailing rule\<close>

text \<open>
  C3. When a mark-price tick raises \<open>highest_tp_reached\<close> to a new value n with n at least
  2, the only stop-loss request of the tick is for the price of the TP level numbered
  n - 1: the requests sent are exactly that one, or none when the trade has no level
  n - 1 or the safety check of C2 refuses the value. When the value after the tick is 0
  or 1, or is not raised, no request is sent and the stop-loss is unchanged; over a run
  of ticks that ends with \<open>highest_tp_reached\<close> at most 1 the stop-loss is the one the run
  started with. \<open>highest_tp_reached\<close> never decreases, over one tick and over a run.
\<close>

theorem tp_trailing:
  "(let r = check_tp_levels ex w t mark;
        n = highest_tp_reached (snd r)
    in highest_tp_reached t \<le> n \<and>
       (highest_tp_reached t < n \<and> 2 \<le> n \<longrightarrow>
          sl_calls (fst r) =
            sl_calls w @
              (case get_tp_price (tp_levels t) (n - 1) of
                 None \<Rightarrow> []
               | Some p \<Rightarrow> if sl_regression t p then [] else [(trade_symbol t, p)]) \<and>
          (\<forall>c \<in> set (drop (length (sl_calls w)) (sl_calls (fst r))).
             fst c = trade_symbol t \<and>
             (\<exists>tp \<in> set (tp_levels t). level tp = n - 1 \<and> price tp = snd c))) \<and>
       (n \<le> 1 \<or> n = highest_tp_reached t \<longrightarrow>
          sl_calls (fst r) = sl_calls w \<and>
          current_sl_price (snd r) = current_sl_price t)) \<and>
   (let r = run_ticks ex w t marks
    in highest_tp_reached t \<le> highest_tp_reached (snd r) \<and>
       (highest_tp_reached (snd r) \<le> 1 \<longrightarrow>
          sl_calls (fst r) = sl_calls w \<and>
          current_sl_price (snd r) = current_sl_price t))"
proof -
  let ?r = "check_tp_levels ex w t mark"
  let ?n = "highest_tp_reached (snd ?r)"
  have a: "highest_tp_reached t \<le> ?n"
    using tp_loop_highest [of "highest_tp_reached t" "trade_side t" mark "tp_levels t"]
    by (simp add: check_tp_levels_highest)
  have b: "sl_calls (fst ?r) =
            sl_calls w @
              (case get_tp_price (tp_levels t) (?n - 1) of
                 None \<Rightarrow> []
               | Some p \<Rightarrow> if sl_regression t p then [] else [(trade_symbol t, p)]) \<and>
          (\<forall>c \<in> set (drop (length (sl_calls w)) (sl_calls (fst ?r))).
             fst c = trade_symbol t \<and>
             (\<exists>tp \<in> set (tp_levels t). level tp = ?n - 1 \<and> price tp = snd c))"
    if h: "highest_tp_reached t < ?n \<and> 2 \<le> ?n"
  proof -
    from h have eq: "sl_calls (fst ?r) =
            sl_calls w @
              (case get_tp_price (tp_levels t) (?n - 1) of
                 None \<Rightarrow> []
               | Some p \<Rightarrow> if sl_regression t p then [] else [(trade_symbol t, p)])"
      by (intro check_tp_levels_raised) simp_all
    show ?thesis
    proof (cases "get_tp_price (tp_levels t) (?n - 1)")
      case None
      with eq show ?thesis by simp
    next
      case (Some p)
      from get_tp_price_mem [OF Some]
      have "\<exists>tp \<in> set (tp_levels t). level tp = ?n - 1 \<and> price tp = p" .
      with eq Some show ?thesis by simp
    qed
  qed
  have c: "sl_calls (fst ?r) = sl_calls w \<and> current_sl_price (snd ?r) = current_sl_price t"
    if "?n \<le> 1 \<or> ?n = highest_tp_reached t"
    using that by (rule check_tp_levels_unraised)
  have d: "highest_tp_reached t \<le> highest_tp_reached (snd (run_ticks ex w t marks))"
    by (rule run_ticks_highest)
  have e: "sl_calls (fst (run_ticks ex w t marks)) = sl_calls w \<and>
          current_sl_price (snd (run_ticks ex w t marks)) = current_sl_price t"
    if "highest_tp_reached (snd (run_ticks ex w t marks)) \<le> 1"
    using that by (rule run_ticks_low)
  from a b c d e show ?thesis unfolding Let_def by blast
qed

text \<open>
  The long trade: a tick at 102 raises the highest level from 0 to 2 and requests the
  price of TP1; a tick at 101 raises it to 1 and requests nothing, and neither does a
  run of ticks that stays below TP2.
\<close>

theorem tp_trailing_witness:
  "highest_tp_reached trade_long < highest_tp_reached (snd (check_tp_levels ex_ok world0 trade_long 102)) \<and>
   2 \<le> highest_tp_reached (snd (check_tp_levels ex_ok world0 trade_long 102)) \<and>
   sl_calls (fst (check_tp_levels ex_ok world0 trade_long 102)) = [(''BTCUSDT'', 101)] \<and>
   highest_tp_reached (snd (check_tp_levels ex_ok world0 trade_long 101)) \<le> 1 \<and>
   sl_calls (fst (check_tp_levels ex_ok world0 trade_long 101)) = [] \<and>
   current_sl_price (snd (check_tp_levels ex_ok world0 trade_long 101)) = Some (195 / 2) \<and>
   highest_tp_reached (snd (run_ticks ex_ok world0 trade_long [101, 100, 101])) \<le> 1 \<and>
   sl_calls (fst (run_ticks ex_ok world0 trade_long [101, 100, 101])) = [] \<and>
   current_sl_price (snd (run_ticks ex_ok world0 trade_long [101, 100, 101])) = Some (195 / 2)"
proof -
  have h: "highest_tp_reached (snd (check_tp_levels ex_ok world0 trade_long 102)) = 2"
    "highest_tp_reached (snd (check_tp_levels ex_ok world0 trade_long 101)) = 1"
    "highest_tp_reached trade_long = 0"
    by (simp_all add: concrete_trade_defs)
  have f: "get_tp_price (tp_levels trade_long) 1 = Some 101" "\<not> sl_regression trade_long 101"
    "trade_symbol trade_long = ''BTCUSDT''" "sl_calls world0 = []"
    "current_sl_price trade_long = Some (195 / 2)"
    by (simp_all add: sl_regression_def trade_long_def mk_tp_def world0_def)
  from tp_trailing [of ex_ok world0 trade_long 102 "[]"] h f
  have "sl_calls (fst (check_tp_levels ex_ok world0 trade_long 102)) = [(''BTCUSDT'', 101)]"
    by (simp add: Let_def)
  moreover from tp_trailing [of ex_ok world0 trade_long 101 "[]"] h f
  have "sl_calls (fst (check_tp_levels ex_ok world0 trade_long 101)) = [] \<and>
    current_sl_price (snd (check_tp_levels ex_ok world0 trade_long 101)) = Some (195 / 2)"
    by (simp add: Let_def)
  moreover have r: "highest_tp_reached (snd (run_ticks ex_ok world0 trade_long [101, 100, 101])) \<le> 1"
    by (simp add: concrete_trade_defs)
  moreover from tp_trailing [of ex_ok world0 trade_long 101 "[101, 100, 101]"] r f
  have "sl_calls (fst (run_ticks ex_ok world0 trade_long [101, 100, 101])) = [] \<and>
    current_sl_price (snd (run_ticks ex_ok world0 trade_long [101, 100, 101])) = Some (195 / 2)"
    by (simp add: Let_def)
  ultimately show ?thesis using h by simp
qed

section \<open>C10: a rejected stop-loss request changes nothing\<close>

lemma check_tp_levels_rejected:
  assumes "\<forall>p. ex (sl_calls w) (trade_symbol t) p \<noteq> Some 0"
  shows "current_sl_price (snd (check_tp_levels ex w t mark)) = current_sl_price t \<and>
      (db_trades (fst (check_tp_levels ex w t mark)) = db_trades w \<or>
       db_trades (fst (check_tp_levels ex w t mark)) =
         update_trade (db_trades w) (snd (check_tp_levels ex w t mark)))"
proof -
  obtain tps nh where l: "tp_loop (trade_side t) mark (tp_levels t) (highest_tp_reached t) = (tps, nh)"
    by (cases "tp_loop (trade_side t) mark (tp_levels t) (highest_tp_reached t)")
  have u: "update_sl ex w t2 p =
      (if sl_regression t2 p then (w, t2)
       else (w\<lparr>sl_calls := sl_calls w @ [(trade_symbol t2, p)]\<rparr>, t2))"
    if "trade_symbol t2 = trade_symbol t" for t2 p
    using assms that by (simp add: update_sl_def Let_def)
  show ?thesis
    using l by (simp add: check_tp_levels_def Let_def split_beta u split: option.splits)
qed

text \<open>
  C10. When the set-trading-stop request of \<open>_update_sl\<close> is answered with a \<open>retCode\<close>
  other than 0 (or with none), the trade object is unchanged, \<open>current_sl_price\<close>
  included, and nothing is written to the trades table. \<open>current_sl_price\<close> changes only
  when the answer has \<open>retCode\<close> 0, and then to the requested value, which is also what
  is written to the table. Over a whole tick with an exchange that accepts nothing, the
  stop-loss of the trade is unchanged and the only row \<open>_check_tp_levels\<close> may write is
  that of the trade as it is returned, with the unchanged stop-loss.
\<close>

theorem update_sl_atomic:
  "(ex (sl_calls w) (trade_symbol t) n \<noteq> Some 0 \<longrightarrow>
      snd (update_sl ex w t n) = t \<and>
      db_trades (fst (update_sl ex w t n)) = db_trades w) \<and>
   (current_sl_price (snd (update_sl ex w t n)) \<noteq> current_sl_price t \<longrightarrow>
      ex (sl_calls w) (trade_symbol t) n = Some 0 \<and>
      current_sl_price (snd (update_sl ex w t n)) = Some n \<and>
      sl_calls (fst (update_sl ex w t n)) = sl_calls w @ [(trade_symbol t, n)]) \<and>
   (\<not> sl_regression t n \<and> ex (sl_calls w) (trade_symbol t) n = Some 0 \<longrightarrow>
      snd (update_sl ex w t n) = t\<lparr>current_sl_price := Some n\<rparr> \<and>
      db_trades (fst (update_sl ex w t n)) =
        update_trade (db_trades w) (t\<lparr>current_sl_price := Some n\<rparr>)) \<and>
   ((\<forall>p. ex (sl_calls w) (trade_symbol t) p \<noteq> Some 0) \<longrightarrow>
      current_sl_price (snd (check_tp_levels ex w t mark)) = current_sl_price t \<and>
      (db_trades (fst (check_tp_levels ex w t mark)) = db_trades w \<or>
       db_trades (fst (check_tp_levels ex w t mark)) =
         update_trade (db_trades w) (snd (check_tp_levels ex w t mark))))"
  using check_tp_levels_rejected [of ex w t mark]
  by (simp add: update_sl_trade update_sl_db update_sl_calls)

text \<open>
  The long trade and a request for 101: rejected, the trade and the table stay as they
  were although the request was sent; accepted, the stop-loss becomes 101. A tick at 102
  against the rejecting exchange raises the highest level to 2 and leaves the stop-loss.
\<close>

theorem update_sl_atomic_witness:
  "ex_fail (sl_calls world0) (trade_symbol trade_long) 101 \<noteq> Some 0 \<and>
   snd (update_sl ex_fail world0 trade_long 101) = trade_long \<and>
   db_trades (fst (update_sl ex_fail world0 trade_long 101)) = db_trades world0 \<and>
   sl_calls (fst (update_sl ex_fail world0 trade_long 101)) = [(''BTCUSDT'', 101)] \<and>
   current_sl_price (snd (update_sl ex_ok world0 trade_long 101)) = Some 101 \<and>
   highest_tp_reached (snd (check_tp_levels ex_fail world0 trade_long 102)) = 2 \<and>
   current_sl_price (snd (check_tp_levels ex_fail world0 trade_long 102)) = Some (195 / 2)"
proof -
  have a: "ex_fail (sl_calls world0) (trade_symbol trade_long) 101 \<noteq> Some 0"
    by (simp add: ex_fail_def)
  have b: "\<not> sl_regression trade_long 101"
    "ex_ok (sl_calls world0) (trade_symbol trade_long) 101 = Some 0"
    by (simp_all add: sl_regression_def trade_long_def ex_ok_def)
  have c: "sl_calls (fst (update_sl ex_fail world0 trade_long 101)) = [(''BTCUSDT'', 101)]"
    using b(1) by (simp add: update_sl_calls world0_def trade_long_def)
  from update_sl_atomic [of ex_fail world0 trade_long 101] a
  have "snd (update_sl ex_fail world0 trade_long 101) = trade_long \<and>
   db_trades (fst (update_sl ex_fail world0 trade_long 101)) = db_trades world0" by simp
  moreover from update_sl_atomic [of ex_ok world0 trade_long 101] b
  have "current_sl_price (snd (update_sl ex_ok world0 trade_long 101)) = Some 101" by simp
  moreover have "highest_tp_reached (snd (check_tp_levels ex_fail world0 trade_long 102)) = 2"
    by (simp add: concrete_trade_defs)
  moreover have "\<forall>p. ex_fail (sl_calls world0) (trade_symbol trade_long) p \<noteq> Some 0"
    by (simp add: ex_fail_def)
  with update_sl_atomic [of ex_fail world0 trade_long 101 102]
  have "current_sl_price (snd (check_tp_levels ex_fail world0 trade_long 102)) =
      current_sl_price trade_long" by blast
  then have "current_sl_price (snd (check_tp_levels ex_fail world0 trade_long 102)) = Some (195 / 2)"
    by (simp add: trade_long_def)
  ultimately show ?thesis using a c by simp
qed

section \<open>Slot manager: frozen slots\<close>




lemma get_slot_store:
  "get_slot (store_slot sm slot) i = (if i = s_id slot then Some slot else get_slot sm i)"
  by (simp add: get_slot_def store_slot_def AList.update_conv')


lemma store_slot_config [simp]: "config (store_slot sm slot) = config sm"
  by (simp add: store_slot_def)




lemma frozen_kept_by_store:
  assumes "get_slot sm k = Some fz" and "s_id slot \<noteq> k"
  shows "get_slot (store_slot sm slot) k = Some fz"
  using assms by (simp add: get_slot_store)








subsection \<open>Concrete slots\<close>










section \<open>C6: slot balance and freezing\<close>




section \<open>Order executor: the attempts of an entry\<close>

text \<open>The number of orders placed in a trace.\<close>

fun is_order :: "exec_event \<Rightarrow> bool" where
  "is_order (OrderPlaced attempt tif p q) = True"
| "is_order (Sleep d) = False"
| "is_order (OrderCancelled oid) = False"

definition orders_placed :: "exec_event list \<Rightarrow> nat" where
  "orders_placed trace = length (filter is_order trace)"

lemma orders_placed_append [simp]:
  "orders_placed (xs @ ys) = orders_placed xs + orders_placed ys"
  by (simp add: orders_placed_def)

lemma orders_placed_simps [simp]:
  "orders_placed [] = 0"
  "orders_placed (OrderPlaced a tif p q # xs) = Suc (orders_placed xs)"
  "orders_placed (Sleep d # xs) = orders_placed xs"
  "orders_placed (OrderCancelled oid # xs) = orders_placed xs"
  by (simp_all add: orders_placed_def)

lemma entry_attempts_orders:
  "orders_placed (snd (snd (entry_attempts cfg env coin notional trade tr atts)))
     \<le> orders_placed tr + length atts"
proof (induction atts arbitrary: trade tr)
  case Nil
  then show ?case by simp
next
  case (Cons a rest)
  have IH: "orders_placed (snd (snd (entry_attempts cfg env coin notional t' tr' rest)))
      \<le> Suc (orders_placed tr + length rest)"
    if "orders_placed tr' \<le> Suc (orders_placed tr)" for t' tr'
    using Cons.IH [of t' tr'] that by simp
  show ?case
    by (auto simp: Let_def split: option.splits intro!: IH)
qed

lemma length_upto: "length [1 .. n] = nat n"
  by simp

lemma execute_entry_orders:
  "orders_placed (snd (snd (execute_entry cfg env trade coin notional)))
     \<le> nat (max_fill_retries cfg)"
  using entry_attempts_orders [of cfg env coin notional "trade\<lparr>trade_status := FILLING\<rparr>" "[]"
      "[1 .. max_fill_retries cfg]"]
  by (simp add: execute_entry_def)

lemma reject_goes_to_next_attempt:
  assumes "get_entry_price (orderbook env a) (trade_side trade) = Some p0"
    and "calculate_qty notional p0 coin = Some q" and "0 < q"
    and "ret_code (place_answer env a) = 170213 \<or> ret_code (place_answer env a) = 170217"
  shows "entry_attempts cfg env coin notional trade tr (a # rest) =
         entry_attempts cfg env coin notional (trade\<lparr>fill_attempts := a\<rparr>)
           (tr @ [OrderPlaced a (time_in_force cfg a)
                    (round_price p0 (tick_size coin) (trade_side trade)) q, Sleep 1]) rest"
  using assms by (auto simp: Let_def)

subsection \<open>Concrete entries\<close>

text \<open>
  The default configuration (three attempts, the first two PostOnly), a coin with tick
  size 0.1 and quantity step 0.001, a pending long trade for a notional of 80 against a
  best bid of 100, an exchange that rejects every order as crossing the book, and one
  that rejects the first order only and fills the second.
\<close>

definition execution_config_default :: ExecutionConfig where
  "execution_config_default =
     \<lparr>fill_timeout_sec = 15, max_fill_retries = 3, cooldown_minutes = 30,
      post_only_retries = 2, dry_run = False\<rparr>"

definition coin_btc :: CoinInfo where
  "coin_btc =
     \<lparr>coin_symbol = ''BTCUSDT'', base_coin = ''BTC'', volume_24h = 1000000,
      min_qty = 1 / 1000, qty_step = 1 / 1000, tick_size = 1 / 10,
      last_ha = None, coin_prev_ha = None, cooldown_until = None, in_active_trade = False\<rparr>"

definition trade_pending :: Trade where
  "trade_pending =
     \<lparr>trade_id = Some 1, slot_id = 1, trade_symbol = ''BTCUSDT'', trade_side = LONG,
      entry_price = None, qty = None, order_id = None,
      current_sl_price = None, initial_sl_price = None,
      tp_levels = [], highest_tp_reached = 0, atr_value = None, trade_status = PENDING,
      pnl = None, fees = 0, exit_reason = None, fill_attempts = 0\<rparr>"

definition book_100 :: OrderBook where
  "book_100 = \<lparr>bids = [100], asks = [101]\<rparr>"

definition env_all_rejected :: EntryEnv where
  "env_all_rejected =
     \<lparr>orderbook = (\<lambda>attempt. book_100),
      place_answer = (\<lambda>attempt. \<lparr>ret_code = 170213, result_order_id = None\<rparr>),
      fill_answer = (\<lambda>attempt. False)\<rparr>"

definition env_first_rejected :: EntryEnv where
  "env_first_rejected =
     \<lparr>orderbook = (\<lambda>attempt. book_100),
      place_answer = (\<lambda>attempt. if attempt = 1 then \<lparr>ret_code = 170213, result_order_id = None\<rparr>
                                else \<lparr>ret_code = 0, result_order_id = Some ''oid-2''\<rparr>),
      fill_answer = (\<lambda>attempt. True)\<rparr>"

lemma upto_1_3: "[1 .. 3] = [1, 2, 3 :: int]"
  by code_simp

lemmas concrete_entry_defs =
  upto_1_3 execute_entry_def execution_config_default_def coin_btc_def trade_pending_def book_100_def
  env_all_rejected_def env_first_rejected_def get_entry_price_def calculate_qty_def
  round_price_def round_down_def round_up_def time_in_force_def Let_def

section \<open>C5: PostOnly rejects during entry\<close>

text \<open>
  C5 as stated says that after a PostOnly reject the executor waits and re-attempts the
  same tier without consuming one of the bounded attempts. The reject path is a
  \<open>continue\<close> of the loop over the attempt numbers, and the tier is computed from the
  attempt number: the next order is the next attempt. When every order is rejected as
  crossing the book, three orders are placed, for the attempts 1, 2 and 3 (the third as
  a GTC limit order), and the entry fails with the trade CANCELLED.
\<close>

theorem postonly_retry_counterexample:
  "fst (execute_entry execution_config_default env_all_rejected trade_pending coin_btc 80) = False \<and>
   snd (snd (execute_entry execution_config_default env_all_rejected trade_pending coin_btc 80)) =
     [OrderPlaced 1 PostOnly 100 (4 / 5), Sleep 1,
      OrderPlaced 2 PostOnly 100 (4 / 5), Sleep 1,
      OrderPlaced 3 GTC 100 (4 / 5), Sleep 1] \<and>
   fill_attempts (fst (snd (execute_entry execution_config_default env_all_rejected
      trade_pending coin_btc 80))) = 3 \<and>
   trade_status (fst (snd (execute_entry execution_config_default env_all_rejected
      trade_pending coin_btc 80))) = CANCELLED"
  by (simp add: concrete_entry_defs)

text \<open>
  C5, amended. Whenever placing an order returns a PostOnly reject code (170213 or
  170217), the executor sleeps one second and goes on with the next attempt of the loop,
  that is with the next tier: the reject consumes one of the attempts. Over a whole
  entry at most \<open>max_fill_retries\<close> orders are placed.
\<close>

theorem postonly_reject_next_attempt:
  "(get_entry_price (orderbook env a) (trade_side trade) = Some p0 \<and>
    calculate_qty notional p0 coin = Some q \<and> 0 < q \<and>
    (ret_code (place_answer env a) = 170213 \<or> ret_code (place_answer env a) = 170217) \<longrightarrow>
      entry_attempts cfg env coin notional trade tr (a # rest) =
      entry_attempts cfg env coin notional (trade\<lparr>fill_attempts := a\<rparr>)
        (tr @ [OrderPlaced a (time_in_force cfg a)
                 (round_price p0 (tick_size coin) (trade_side trade)) q, Sleep 1]) rest) \<and>
   orders_placed (snd (snd (execute_entry cfg env trade coin notional)))
     \<le> nat (max_fill_retries cfg)"
  using reject_goes_to_next_attempt [of env a trade p0 notional coin q cfg tr rest]
    execute_entry_orders [of cfg env trade coin notional]
  by blast

text \<open>
  With the first order rejected and the second filled: the entry continues at attempt 2
  after the sleep, and the trade is filled with \<open>fill_attempts\<close> 2.
\<close>

theorem postonly_reject_next_attempt_witness:
  "get_entry_price (orderbook env_first_rejected 1) (trade_side trade_pending) = Some 100 \<and>
   calculate_qty 80 100 coin_btc = Some (4 / 5) \<and>
   ret_code (place_answer env_first_rejected 1) = 170213 \<and>
   entry_attempts execution_config_default env_first_rejected coin_btc 80
     (trade_pending\<lparr>trade_status := FILLING\<rparr>) [] [1, 2, 3] =
   entry_attempts execution_config_default env_first_rejected coin_btc 80
     (trade_pending\<lparr>trade_status := FILLING, fill_attempts := 1\<rparr>)
     [OrderPlaced 1 PostOnly 100 (4 / 5), Sleep 1] [2, 3] \<and>
   snd (snd (execute_entry execution_config_default env_first_rejected trade_pending coin_btc 80)) =
     [OrderPlaced 1 PostOnly 100 (4 / 5), Sleep 1, OrderPlaced 2 PostOnly 100 (4 / 5)] \<and>
   fill_attempts (fst (snd (execute_entry execution_config_default env_first_rejected
      trade_pending coin_btc 80))) = 2"
proof -
  have a: "get_entry_price (orderbook env_first_rejected 1)
             (trade_side (trade_pending\<lparr>trade_status := FILLING\<rparr>)) = Some 100"
    "calculate_qty 80 100 coin_btc = Some (4 / 5)"
    "ret_code (place_answer env_first_rejected 1) = 170213"
    by (simp_all add: concrete_entry_defs)
  have b: "time_in_force execution_config_default 1 = PostOnly"
    "round_price 100 (tick_size coin_btc) (trade_side (trade_pending\<lparr>trade_status := FILLING\<rparr>)) = 100"
    by (simp_all add: concrete_entry_defs)
  from postonly_reject_next_attempt
    [of env_first_rejected 1 "trade_pending\<lparr>trade_status := FILLING\<rparr>" 100 80 coin_btc "4 / 5"
       execution_config_default "[]" "[2, 3]", THEN conjunct1] a b
  have "entry_attempts execution_config_default env_first_rejected coin_btc 80
     (trade_pending\<lparr>trade_status := FILLING\<rparr>) [] [1, 2, 3] =
   entry_attempts execution_config_default env_first_rejected coin_btc 80
     (trade_pending\<lparr>trade_status := FILLING, fill_attempts := 1\<rparr>)
     [OrderPlaced 1 PostOnly 100 (4 / 5), Sleep 1] [2, 3]"
    by (simp del: entry_attempts.simps)
  moreover have "snd (snd (execute_entry execution_config_default env_first_rejected
      trade_pending coin_btc 80)) =
     [OrderPlaced 1 PostOnly 100 (4 / 5), Sleep 1, OrderPlaced 2 PostOnly 100 (4 / 5)]"
    "fill_attempts (fst (snd (execute_entry execution_config_default env_first_rejected
      trade_pending coin_btc 80))) = 2"
    by (simp_all add: concrete_entry_defs)
  ultimately show ?thesis using a by (simp del: entry_attempts.simps)
qed

section \<open>Coin selector: what a refresh keeps and what it drops\<close>

text \<open>
  A symbol that \<open>refresh\<close> reports as removed is no longer a key of \<open>_coins\<close>, so
  \<open>is_in_trade\<close> answers \<open>False\<close> for it whatever its flag was: the filter of the refresh
  loop keeps every removed symbol.
\<close>

lemma removed_not_tracked:
  assumes "refresh cs tickers instruments = (cs', added, removed)" and "s \<in> set removed"
  shows "map_of (coins cs') s = None \<and> \<not> is_in_trade cs' s"
proof -
  from assms(1) have "removed =
      filter (\<lambda>s. s \<notin> set (map fst (coins cs'))) (map fst (coins cs))"
    by (auto simp: refresh_def Let_def)
  with assms(2) have "s \<notin> set (map fst (coins cs'))" by simp
  then have "map_of (coins cs') s = None" by (simp add: map_of_eq_None_iff)
  then show ?thesis by (simp add: is_in_trade_def)
qed

lemma safe_to_remove_is_removed:
  assumes "refresh cs tickers instruments = (cs', added, removed)"
  shows "filter (\<lambda>s. \<not> is_in_trade cs' s) removed = removed"
  using removed_not_tracked [OF assms] by (simp add: filter_id_conv)

text \<open>A symbol that stays tracked keeps its in-trade flag.\<close>

lemma new_coin_flag:
  "in_active_trade (new_coin old cand) =
     (case map_of old (fst cand) of None \<Rightarrow> False | Some c \<Rightarrow> in_active_trade c)"
  by (cases cand) (simp add: new_coin_def Let_def split: option.splits)

lemma build_new_coins_flag:
  assumes "\<And>k v. map_of acc k = Some v \<Longrightarrow>
             in_active_trade v = (case map_of old k of None \<Rightarrow> False | Some c \<Rightarrow> in_active_trade c)"
    and "map_of (build_new_coins old cands acc) k = Some v"
  shows "in_active_trade v = (case map_of old k of None \<Rightarrow> False | Some c \<Rightarrow> in_active_trade c)"
  using assms
proof (induction cands arbitrary: acc)
  case Nil
  then show ?case by simp
next
  case (Cons cand cands)
  have "\<And>k v. map_of (AList.update (fst cand) (new_coin old cand) acc) k = Some v \<Longrightarrow>
      in_active_trade v = (case map_of old k of None \<Rightarrow> False | Some c \<Rightarrow> in_active_trade c)"
  proof -
    fix k' v'
    assume h: "map_of (AList.update (fst cand) (new_coin old cand) acc) k' = Some v'"
    show "in_active_trade v' =
        (case map_of old k' of None \<Rightarrow> False | Some c \<Rightarrow> in_active_trade c)"
    proof (cases "k' = fst cand")
      case True
      with h have "v' = new_coin old cand" by (simp add: AList.update_conv')
      with True show ?thesis by (simp add: new_coin_flag)
    next
      case False
      with h have "map_of acc k' = Some v'" by (simp add: AList.update_conv')
      then show ?thesis by (rule Cons.prems(1))
    qed
  qed
  from Cons.IH [OF this] Cons.prems(2) show ?case by simp
qed

lemma refresh_keeps_flag:
  assumes "refresh cs tickers instruments = (cs', added, removed)"
    and "map_of (coins cs) s = Some old" and "map_of (coins cs') s = Some new"
  shows "in_active_trade new = in_active_trade old"
proof -
  from assms(1) have "coins cs' = build_new_coins (coins cs)
      (py_prefix (num_coins cs)
        (sort_key (\<lambda>(symbol, base, volume, inst). - volume)
          (candidates_of (excluded cs) (inst_map instruments) tickers))) []"
    by (auto simp: refresh_def Let_def)
  with assms(3) build_new_coins_flag [of "[]" "coins cs" _ s new] assms(2)
  show ?thesis by simp
qed

subsection \<open>A concrete refresh\<close>

text \<open>
  A selector that tracks one coin, AAAUSDT, which is in an active trade and subscribed;
  the exchange now reports a larger turnover for BBBUSDT.
\<close>

definition mk_coin :: "string \<Rightarrow> string \<Rightarrow> decimal \<Rightarrow> bool \<Rightarrow> CoinInfo" where
  "mk_coin symbol base volume in_trade =
     \<lparr>coin_symbol = symbol, base_coin = base, volume_24h = volume,
      min_qty = 1 / 1000, qty_step = 1 / 1000, tick_size = 1 / 100,
      last_ha = None, coin_prev_ha = None, cooldown_until = None, in_active_trade = in_trade\<rparr>"

definition mk_instrument :: "string \<Rightarrow> Instrument" where
  "mk_instrument symbol =
     \<lparr>inst_symbol = symbol, min_order_qty = None, inst_qty_step = None, inst_tick_size = None\<rparr>"

definition selector_one :: CoinSelector where
  "selector_one =
     \<lparr>num_coins = 1,
      excluded = [''USDC'', ''USDT'', ''DAI'', ''TUSD'', ''BUSD'', ''FDUSD'', ''USDCUSDT'',
                  ''DAIUSDT'', ''TUSDUSDT'', ''BUSDUSDT'', ''FDUSDUSDT''],
      coins = [(''AAAUSDT'', mk_coin ''AAAUSDT'' ''AAA'' 300 True)]\<rparr>"

definition bot_one :: Bot where
  "bot_one =
     \<lparr>coin_selector = selector_one, public_subs = symbol_topics ''AAAUSDT'',
      bot_ha_engine = fst (build_from_history ha_engine_init ''AAAUSDT'' [candle_a])\<rparr>"

definition tickers_one :: "Ticker list" where
  "tickers_one =
     [\<lparr>ticker_symbol = ''AAAUSDT'', turnover24h = 100\<rparr>,
      \<lparr>ticker_symbol = ''BBBUSDT'', turnover24h = 200\<rparr>]"

definition instruments_one :: "Instrument list" where
  "instruments_one = [mk_instrument ''AAAUSDT'', mk_instrument ''BBBUSDT'']"

lemmas concrete_refresh_defs =
  coin_refresh_pass_def refresh_def candidates_of.simps inst_map_def new_coin_def
  py_prefix_def ends_with_def is_in_trade_def subscribe_symbols_def unsubscribe_symbols_def
  symbol_topics_def remove_symbol_def load_single_coin_history_def
  bot_one_def selector_one_def tickers_one_def instruments_one_def mk_coin_def
  mk_instrument_def Let_def

section \<open>C9: a symbol in an active trade across a refresh\<close>

text \<open>
  C9 says that a symbol whose \<open>in_active_trade\<close> flag is set is never dropped from
  tracking or subscription by a refresh followed by the caller's unsubscribe step. The
  code at the input above: \<open>refresh\<close> replaces \<open>_coins\<close> by the new top list, which drops
  AAAUSDT together with its flag; the caller's filter \<open>not is_in_trade(s)\<close> then looks the
  symbol up in the new dictionary, finds nothing, and lets it through. After the pass
  AAAUSDT is neither tracked nor subscribed, and its HA state is gone.
\<close>

theorem refresh_drops_symbol_in_trade:
  "is_in_trade (coin_selector bot_one) ''AAAUSDT'' \<and>
   public_subs bot_one = symbol_topics ''AAAUSDT'' \<and>
   map fst (coins (coin_selector
      (coin_refresh_pass bot_one tickers_one instruments_one (\<lambda>s. [])))) = [''BBBUSDT''] \<and>
   public_subs (coin_refresh_pass bot_one tickers_one instruments_one (\<lambda>s. [])) =
     symbol_topics ''BBBUSDT'' \<and>
   prev_ha (bot_ha_engine (coin_refresh_pass bot_one tickers_one instruments_one (\<lambda>s. [])))
     ''AAAUSDT'' = None"
  by (simp add: concrete_refresh_defs)

end
